theory Spec2Isabelle
  imports Complex_Main "HOL-Library.Sublist" "HOL-Library.Char_ord"
    "HOL-Library.List_Lexorder" "HOL-Library.Product_Lexorder"
begin

section \<open>Python strings\<close>

text \<open>
  Strings are lists of 8-bit characters.  \<open>str.strip()\<close> removes the characters for
  which \<open>str.isspace()\<close> holds; in the 8-bit range these are the twelve below.
\<close>

definition is_space :: "char \<Rightarrow> bool" where
  "is_space c \<longleftrightarrow> c \<in> set [CHR '' '', CHR 0x09, CHR 0x0A, CHR 0x0B, CHR 0x0C, CHR 0x0D,
                          CHR 0x1C, CHR 0x1D, CHR 0x1E, CHR 0x1F, CHR 0x85, CHR 0xA0]"

definition lstrip :: "string \<Rightarrow> string" where
  "lstrip s = dropWhile is_space s"

definition rstrip :: "string \<Rightarrow> string" where
  "rstrip s = rev (dropWhile is_space (rev s))"

definition strip :: "string \<Rightarrow> string" where
  "strip s = rstrip (lstrip s)"

definition startswith :: "string \<Rightarrow> string \<Rightarrow> bool" where
  "startswith s p \<longleftrightarrow> take (length p) s = p"

text \<open>\<open>sub in s\<close> and \<open>Series.str.contains(sub)\<close> for a pattern without regex operators.\<close>

fun str_contains :: "string \<Rightarrow> string \<Rightarrow> bool" where
  "str_contains [] sub = (sub = [])"
| "str_contains (c # cs) sub = (startswith (c # cs) sub \<or> str_contains cs sub)"

text \<open>
  \<open>s.replace(old, "")\<close> for a non-empty \<open>old\<close>: the occurrences are removed from left
  to right, without overlap.
\<close>

function str_remove :: "string \<Rightarrow> string \<Rightarrow> string" where
  "str_remove [] old = []"
| "str_remove (c # cs) old =
     (if old \<noteq> [] \<and> startswith (c # cs) old
      then str_remove (drop (length old) (c # cs)) old
      else c # str_remove cs old)"
  by pat_completeness auto
termination
  by (relation "measure (\<lambda>(s, old). length s)") (auto simp: neq_Nil_conv)

text \<open>\<open>str.lower()\<close> on the ASCII letters (the rule names compared with are ASCII).\<close>

definition lower_char :: "char \<Rightarrow> char" where
  "lower_char c =
     (case map_of (zip ''ABCDEFGHIJKLMNOPQRSTUVWXYZ'' ''abcdefghijklmnopqrstuvwxyz'') c of
        None \<Rightarrow> c | Some d \<Rightarrow> d)"

definition lower :: "string \<Rightarrow> string" where
  "lower s = map lower_char s"

section \<open>Floating-point values\<close>

text \<open>
  A Python/NumPy float is modelled as an exact real extended by the two infinities
  and NaN.  Rounding and overflow are not modelled; division by zero and the
  comparisons with NaN follow IEEE 754 as NumPy applies it to a Series.
\<close>

datatype pyfloat = Fin real | PInf | NInf | NaN

fun fneg :: "pyfloat \<Rightarrow> pyfloat" where
  "fneg (Fin a) = Fin (- a)"
| "fneg PInf = NInf"
| "fneg NInf = PInf"
| "fneg NaN = NaN"

fun fadd :: "pyfloat \<Rightarrow> pyfloat \<Rightarrow> pyfloat" where
  "fadd (Fin a) (Fin b) = Fin (a + b)"
| "fadd NaN _ = NaN"
| "fadd _ NaN = NaN"
| "fadd PInf NInf = NaN"
| "fadd NInf PInf = NaN"
| "fadd PInf _ = PInf"
| "fadd _ PInf = PInf"
| "fadd NInf _ = NInf"
| "fadd _ NInf = NInf"

definition fsub :: "pyfloat \<Rightarrow> pyfloat \<Rightarrow> pyfloat" where
  "fsub a b = fadd a (fneg b)"

fun fabs :: "pyfloat \<Rightarrow> pyfloat" where
  "fabs (Fin a) = Fin \<bar>a\<bar>"
| "fabs PInf = PInf"
| "fabs NInf = PInf"
| "fabs NaN = NaN"

text \<open>The sign of a float that is not NaN: \<open>-1\<close>, \<open>0\<close> or \<open>1\<close>.\<close>

fun fsgn :: "pyfloat \<Rightarrow> int" where
  "fsgn (Fin a) = (if a < 0 then - 1 else if a = 0 then 0 else 1)"
| "fsgn PInf = 1"
| "fsgn NInf = - 1"
| "fsgn NaN = 0"

definition inf_of_sign :: "int \<Rightarrow> pyfloat" where
  "inf_of_sign s = (if s < 0 then NInf else if s = 0 then NaN else PInf)"

fun fmul :: "pyfloat \<Rightarrow> pyfloat \<Rightarrow> pyfloat" where
  "fmul (Fin a) (Fin b) = Fin (a * b)"
| "fmul NaN _ = NaN"
| "fmul _ NaN = NaN"
| "fmul a b = inf_of_sign (fsgn a * fsgn b)"

text \<open>
  Division of float Series: a finite non-zero value over zero is an infinity, zero
  over zero is NaN, no exception is raised.
\<close>

fun fdiv :: "pyfloat \<Rightarrow> pyfloat \<Rightarrow> pyfloat" where
  "fdiv NaN _ = NaN"
| "fdiv _ NaN = NaN"
| "fdiv (Fin a) (Fin b) = (if b = 0 then inf_of_sign (fsgn (Fin a)) else Fin (a / b))"
| "fdiv (Fin a) _ = Fin 0"
| "fdiv a (Fin b) = inf_of_sign (fsgn a * (if b < 0 then - 1 else 1))"
| "fdiv _ _ = NaN"

fun flt :: "pyfloat \<Rightarrow> pyfloat \<Rightarrow> bool" where
  "flt NaN _ = False"
| "flt _ NaN = False"
| "flt (Fin a) (Fin b) = (a < b)"
| "flt NInf NInf = False"
| "flt NInf _ = True"
| "flt _ NInf = False"
| "flt PInf _ = False"
| "flt _ PInf = True"

fun fle :: "pyfloat \<Rightarrow> pyfloat \<Rightarrow> bool" where
  "fle NaN _ = False"
| "fle _ NaN = False"
| "fle (Fin a) (Fin b) = (a \<le> b)"
| "fle NInf _ = True"
| "fle _ PInf = True"
| "fle _ _ = False"

definition fgt :: "pyfloat \<Rightarrow> pyfloat \<Rightarrow> bool" where
  "fgt a b = flt b a"

definition fge :: "pyfloat \<Rightarrow> pyfloat \<Rightarrow> bool" where
  "fge a b = fle b a"

fun fsqrt :: "pyfloat \<Rightarrow> pyfloat" where
  "fsqrt (Fin a) = (if a < 0 then NaN else Fin (sqrt a))"
| "fsqrt PInf = PInf"
| "fsqrt NInf = NaN"
| "fsqrt NaN = NaN"

definition notna :: "pyfloat \<Rightarrow> bool" where
  "notna x \<longleftrightarrow> x \<noteq> NaN"

text \<open>
  \<open>Series.dropna()\<close>, \<open>Series.mean()\<close> and \<open>Series.std(ddof=0)\<close>.  The mean and the
  standard deviation skip NaN; on no value at all they are NaN.
\<close>

definition dropna :: "pyfloat list \<Rightarrow> pyfloat list" where
  "dropna xs = filter notna xs"

definition fsum :: "pyfloat list \<Rightarrow> pyfloat" where
  "fsum xs = foldl fadd (Fin 0) xs"

definition mean :: "pyfloat list \<Rightarrow> pyfloat" where
  "mean xs = (let v = dropna xs in
     if v = [] then NaN else fdiv (fsum v) (Fin (real (length v))))"

definition std0 :: "pyfloat list \<Rightarrow> pyfloat" where
  "std0 xs = (let v = dropna xs; m = mean v in
     if v = [] then NaN
     else fsqrt (fdiv (fsum (map (\<lambda>x. fmul (fsub x m) (fsub x m)) v)) (Fin (real (length v)))))"

section \<open>Parsing a float\<close>

text \<open>
  \<open>float(s)\<close> on a string: surrounding whitespace is stripped, then an optional sign
  and either \<open>inf\<close>, \<open>infinity\<close>, \<open>nan\<close> (in any letter case) or a decimal number
  with an optional exponent.  Digits may be grouped by single underscores.  A
  string that does not parse raises \<open>ValueError\<close>, here \<open>None\<close>.
\<close>

definition is_digit :: "char \<Rightarrow> bool" where
  "is_digit c \<longleftrightarrow> c \<in> set ''0123456789''"

definition digit_val :: "char \<Rightarrow> nat" where
  "digit_val c = (case map_of (zip ''0123456789'' [0, 1, 2, 3, 4, 5, 6, 7, 8, 9]) c of
     None \<Rightarrow> 0 | Some d \<Rightarrow> d)"

text \<open>The longest prefix \<open>digit (["_"] digit)*\<close>: its digits, and the rest of the string.\<close>

fun digitpart :: "string \<Rightarrow> string \<times> string" where
  "digitpart [] = ([], [])"
| "digitpart [c] = (if is_digit c then ([c], []) else ([], [c]))"
| "digitpart (c # d # ds) =
     (if \<not> is_digit c then ([], c # d # ds)
      else if is_digit d then (case digitpart (d # ds) of (a, r) \<Rightarrow> (c # a, r))
      else if d = CHR ''_'' \<and> ds \<noteq> [] \<and> is_digit (hd ds)
        then (case digitpart ds of (a, r) \<Rightarrow> (c # a, r))
      else ([c], d # ds))"

definition digits_val :: "string \<Rightarrow> nat" where
  "digits_val ds = foldl (\<lambda>n c. 10 * n + digit_val c) 0 ds"

text \<open>The exponent \<open>("e" | "E") [sign] digitpart\<close> up to the end of the string.\<close>

definition parse_exponent :: "string \<Rightarrow> int option" where
  "parse_exponent s =
     (case s of
        [] \<Rightarrow> Some 0
      | c # cs \<Rightarrow>
          if c = CHR ''e'' \<or> c = CHR ''E'' then
            (let neg = (cs \<noteq> [] \<and> hd cs = CHR ''-'');
                 body = (if cs \<noteq> [] \<and> (hd cs = CHR ''-'' \<or> hd cs = CHR ''+'') then tl cs else cs)
             in case digitpart body of
                  (ds, r) \<Rightarrow>
                    if ds = [] \<or> r \<noteq> [] then None
                    else Some (if neg then - int (digits_val ds) else int (digits_val ds)))
          else None)"

text \<open>\<open>[digitpart] "." digitpart | digitpart ["."]\<close>, then the exponent.\<close>

definition parse_number :: "string \<Rightarrow> real option" where
  "parse_number s =
     (case digitpart s of
        (ip, r) \<Rightarrow>
          (let (fp, r') = (if r \<noteq> [] \<and> hd r = CHR ''.'' then digitpart (tl r) else ([], r))
           in if ip = [] \<and> fp = [] then None
              else case parse_exponent r' of
                     None \<Rightarrow> None
                   | Some e \<Rightarrow>
                       Some ((real (digits_val ip) + real (digits_val fp) / 10 ^ length fp)
                             * (if e < 0 then 1 / 10 ^ nat (- e) else 10 ^ nat e))))"

definition parse_unsigned :: "string \<Rightarrow> pyfloat option" where
  "parse_unsigned s =
     (if lower s = ''inf'' \<or> lower s = ''infinity'' then Some PInf
      else if lower s = ''nan'' then Some NaN
      else map_option Fin (parse_number s))"

definition py_float :: "string \<Rightarrow> pyfloat option" where
  "py_float s =
     (let t = strip s in
      if t \<noteq> [] \<and> hd t = CHR ''-'' then map_option fneg (parse_unsigned (tl t))
      else if t \<noteq> [] \<and> hd t = CHR ''+'' then parse_unsigned (tl t)
      else parse_unsigned t)"

section \<open>Cells of the QC table\<close>

text \<open>
  A cell of the raw table is empty (NaN or \<open>None\<close>), a number or a string.
\<close>

datatype cell = Missing | Num real | Str string

definition isna :: "cell \<Rightarrow> bool" where
  "isna x \<longleftrightarrow> x = Missing"

text \<open>\<open>is_bdl\<close>, the same function in \<open>blank_wide.py\<close> and \<open>duplicate_wide.py\<close>.\<close>

fun is_bdl :: "cell \<Rightarrow> bool" where
  "is_bdl (Str s) = startswith (strip s) ''<''"
| "is_bdl _ = False"

text \<open>A cell of a result table that holds \<open>None\<close>, a string or a float.\<close>

datatype field = FNone | FStr string | FNum pyfloat

text \<open>
  \<open>pd.to_numeric(series, errors="coerce")\<close> on one element: what does not parse is
  NaN.  The parser of pandas is taken to accept the literals of \<open>float\<close>.
\<close>

definition str_to_numeric :: "string \<Rightarrow> pyfloat" where
  "str_to_numeric s = (case py_float s of None \<Rightarrow> NaN | Some v \<Rightarrow> v)"

fun field_to_numeric :: "field \<Rightarrow> pyfloat" where
  "field_to_numeric FNone = NaN"
| "field_to_numeric (FStr s) = str_to_numeric s"
| "field_to_numeric (FNum v) = v"

section \<open>The QC table and the analyte metadata\<close>

text \<open>
  One entry of the metadata dictionary (the analysis method, which no evaluator
  reads, is left out), and the dictionary in insertion order.
\<close>

record meta =
  analyte :: string
  unit :: string
  dl :: real

type_synonym metadata = "(nat \<times> meta) list"

text \<open>
  A row of the QC table: the sample name (\<open>None\<close> when the cell is not a string), the
  QC type and the analyte cells by column name.  The table lists its analyte
  columns.
\<close>

record qc_row =
  Sample :: "string option"
  QC_Type :: string
  cells :: "string \<Rightarrow> cell"

record qc_table =
  columns :: "string list"
  rows :: "qc_row list"

text \<open>\<open>f"{analyte}_{unit}".replace(" ", "").replace("/", "")\<close>\<close>

definition col_name :: "meta \<Rightarrow> string" where
  "col_name m = str_remove (str_remove (analyte m @ ''_'' @ unit m) '' '') ''/''"

datatype error = KeyError | ValueError

section \<open>Blank evaluator (\<open>blank_wide.py\<close>)\<close>

text \<open>The substitution rule: a number, or a string (the name of a rule).\<close>

datatype bdl_rule = RuleNum real | RuleStr string

fun blank_bdl_substitution :: "real \<Rightarrow> bdl_rule \<Rightarrow> real" where
  "blank_bdl_substitution d (RuleNum r) = r"
| "blank_bdl_substitution d (RuleStr s) =
     (let rule = lower s in
      if rule = ''half'' then d / 2
      else if rule = ''sqrt2'' then d / sqrt 2
      else if rule = ''zero'' then 0
      else if rule = ''dl'' then d
      else d / 2)"

definition blank_to_numeric_with_bdl :: "cell \<Rightarrow> real \<Rightarrow> bdl_rule \<Rightarrow> pyfloat" where
  "blank_to_numeric_with_bdl x d rule =
     (if isna x then NaN
      else if is_bdl x then Fin (blank_bdl_substitution d rule)
      else case x of
             Num r \<Rightarrow> Fin r
           | Str s \<Rightarrow> (case py_float s of None \<Rightarrow> NaN | Some v \<Rightarrow> v)
           | Missing \<Rightarrow> NaN)"

record blank_result =
  b_Analyte :: string
  b_Unit :: string
  b_DL :: real
  b_Values :: "cell list"
  b_Average :: field
  b_StDev :: field
  b_Blank_Status :: string

text \<open>The body of the loop over the metadata, for one analyte whose column exists.\<close>

definition blank_analyte :: "qc_row list \<Rightarrow> meta \<Rightarrow> real \<Rightarrow> bdl_rule \<Rightarrow> blank_result" where
  "blank_analyte df_blank m tolerance_factor rule =
     (let raw = map (\<lambda>r. cells r (col_name m)) df_blank;
          numeric = map (\<lambda>x. blank_to_numeric_with_bdl x (dl m) rule) raw
      in if list_all isna raw then
           \<lparr>b_Analyte = analyte m, b_Unit = unit m, b_DL = dl m, b_Values = raw,
            b_Average = FStr [], b_StDev = FStr [], b_Blank_Status = ''NotEvaluated''\<rparr>
         else
           (let valid = dropna numeric;
                avg = mean valid;
                stdev = std0 valid;
                status =
                  (if list_ex is_bdl raw then ''OK''
                   else if flt avg (Fin (dl m)) then ''OK''
                   else if flt avg (Fin (dl m * tolerance_factor)) then ''Needs Investigation''
                   else ''Fail'')
            in \<lparr>b_Analyte = analyte m, b_Unit = unit m, b_DL = dl m, b_Values = raw,
                b_Average = FNum avg, b_StDev = FNum stdev, b_Blank_Status = status\<rparr>))"

text \<open>
  \<open>compute_blank_qc\<close>: without a blank row the result is the empty table; with blank
  rows and no mapped analyte column, \<open>pd.concat([])\<close> raises \<open>ValueError\<close>.
\<close>

definition compute_blank_qc ::
  "qc_table \<Rightarrow> metadata \<Rightarrow> real \<Rightarrow> bdl_rule \<Rightarrow> error + blank_result list" where
  "compute_blank_qc df md tolerance_factor rule =
     (let df_blank = filter (\<lambda>r. str_contains (QC_Type r) ''Blank'') (rows df) in
      if df_blank = [] then Inr []
      else
        (let results = map (\<lambda>(i, m). blank_analyte df_blank m tolerance_factor rule)
                         (filter (\<lambda>(i, m). col_name m \<in> set (columns df)) md)
         in if results = [] then Inl ValueError else Inr results))"

section \<open>Duplicate evaluator (\<open>duplicate_wide.py\<close>)\<close>

definition dup_bdl_substitution :: "real \<Rightarrow> real" where
  "dup_bdl_substitution d = d / 2"

definition dup_base_name :: "string option \<Rightarrow> string option" where
  "dup_base_name sample =
     map_option (\<lambda>s. strip (str_remove (str_remove s '' Orig'') '' Dup'')) sample"

definition dup_to_numeric_with_bdl :: "cell \<Rightarrow> real \<Rightarrow> pyfloat" where
  "dup_to_numeric_with_bdl x d =
     (if isna x then NaN
      else if is_bdl x then Fin (dup_bdl_substitution d)
      else case x of
             Num r \<Rightarrow> Fin r
           | Str s \<Rightarrow> (case py_float s of None \<Rightarrow> NaN | Some v \<Rightarrow> v)
           | Missing \<Rightarrow> NaN)"

text \<open>\<open>(a - b).abs() / ((a + b) / 2) * 100\<close>\<close>

definition rpd_formula :: "pyfloat \<Rightarrow> pyfloat \<Rightarrow> pyfloat" where
  "rpd_formula a b = fmul (fdiv (fabs (fsub a b)) (fdiv (fadd a b) (Fin 2))) (Fin 100)"

record dup_result =
  d_Sample :: "string option"
  d_Analyte :: string
  d_Unit :: string
  d_Orig :: cell
  d_Dup :: cell
  d_Orig_num :: pyfloat
  d_Dup_num :: pyfloat
  d_DL :: real
  d_Above10xDL :: bool
  d_RPD :: field
  d_Status :: string

text \<open>
  One row of the merged table for one analyte.  The source assigns through boolean
  masks, one after the other; on one row each masked assignment is a conditional
  update, and a later one overrides an earlier one.
\<close>

definition dup_row :: "string option \<Rightarrow> meta \<Rightarrow> cell \<Rightarrow> cell \<Rightarrow> real \<Rightarrow> dup_result" where
  "dup_row base m orig_raw dup_raw rpd_tolerance =
     (let d = dl m;
          orig_blank = isna orig_raw;
          dup_blank = isna dup_raw;
          blank_mask = (orig_blank \<or> dup_blank);
          orig_bdl = is_bdl orig_raw;
          dup_bdl = is_bdl dup_raw;
          orig_num = dup_to_numeric_with_bdl orig_raw d;
          dup_num = dup_to_numeric_with_bdl dup_raw d;
          above_10x = (fgt orig_num (Fin (10 * d)) \<and> fgt dup_num (Fin (10 * d)));
          rpd0 = FNone;
          status0 = [];
          rpd1 = (if blank_mask then FStr [] else rpd0);
          status1 = (if blank_mask then ''NotEvaluated'' else status0);
          both_bdl = (orig_bdl \<and> dup_bdl \<and> \<not> blank_mask);
          rpd2 = (if both_bdl then FStr [] else rpd1);
          status2 = (if both_bdl then ''BothBDL'' else status1);
          bdl_mismatch = (((orig_bdl \<and> \<not> dup_bdl) \<or> (dup_bdl \<and> \<not> orig_bdl)) \<and> \<not> blank_mask);
          rpd3 = (if bdl_mismatch then FNum (rpd_formula orig_num dup_num) else rpd2);
          status3 = (if bdl_mismatch then ''BDL_Substitution'' else status2);
          low_grade = (\<not> orig_bdl \<and> \<not> dup_bdl \<and> \<not> blank_mask \<and> \<not> above_10x);
          rpd4 = (if low_grade then FStr [] else rpd3);
          status4 = (if low_grade then ''Below10xDL'' else status3);
          valid = (above_10x \<and> \<not> blank_mask \<and> \<not> orig_bdl \<and> \<not> dup_bdl);
          rpd5 = (if valid then FNum (rpd_formula orig_num dup_num) else rpd4);
          rpd_num = field_to_numeric rpd5;
          numeric_mask = (valid \<and> notna rpd_num);
          status5 = (if numeric_mask \<and> fle rpd_num (Fin rpd_tolerance) then ''OK'' else status4);
          status6 = (if numeric_mask \<and> fgt rpd_num (Fin rpd_tolerance) then ''Fail_RPD''
                     else status5)
      in \<lparr>d_Sample = base, d_Analyte = analyte m, d_Unit = unit m,
          d_Orig = orig_raw, d_Dup = dup_raw, d_Orig_num = orig_num, d_Dup_num = dup_num,
          d_DL = d, d_Above10xDL = above_10x, d_RPD = rpd5, d_Status = status6\<rparr>)"

text \<open>
  \<open>pd.merge(df_orig, df_dupe, on="DUP_Base")\<close>: the inner join on the base key, the
  rows of the left table in their order, each with every right row of the same
  key (pandas joins two missing keys with each other).
\<close>

definition dup_merge :: "qc_row list \<Rightarrow> qc_row list \<Rightarrow> (qc_row \<times> qc_row) list" where
  "dup_merge df_orig df_dupe =
     concat (map (\<lambda>a. map (\<lambda>b. (a, b))
                        (filter (\<lambda>b. dup_base_name (Sample b) = dup_base_name (Sample a)) df_dupe))
                 df_orig)"

definition dup_pairs :: "qc_table \<Rightarrow> (qc_row \<times> qc_row) list" where
  "dup_pairs df =
     (let df_dup = filter (\<lambda>r. str_contains (QC_Type r) ''Duplicate'') (rows df);
          df_orig = filter (\<lambda>r. QC_Type r = ''Duplicate_Orig'') df_dup;
          df_dupe = filter (\<lambda>r. QC_Type r = ''Duplicate_Dup'') df_dup
      in dup_merge df_orig df_dupe)"

text \<open>The frame appended to \<open>results\<close> for one metadata entry (none when the column is absent).\<close>

definition dup_analyte :: "qc_table \<Rightarrow> meta \<Rightarrow> real \<Rightarrow> dup_result list" where
  "dup_analyte df m rpd_tolerance =
     (if col_name m \<in> set (columns df)
      then map (\<lambda>(a, b). dup_row (dup_base_name (Sample a)) m
                           (cells a (col_name m)) (cells b (col_name m)) rpd_tolerance)
               (dup_pairs df)
      else [])"

definition compute_duplicate_rpd :: "qc_table \<Rightarrow> metadata \<Rightarrow> real \<Rightarrow> dup_result list" where
  "compute_duplicate_rpd df md rpd_tolerance =
     concat (map (\<lambda>(i, m). dup_analyte df m rpd_tolerance) md)"

section \<open>CRM evaluator (\<open>crm_wide.py\<close>)\<close>

definition crm_base_name :: "string option \<Rightarrow> string option" where
  "crm_base_name sample =
     map_option (\<lambda>s. strip (str_remove (str_remove s '' Meas'') '' Cert'')) sample"

text \<open>
  Whether the pattern \<open>^[<>]\s*\d+(\.\d+)?$\<close> is found in a string (\<open>$\<close> also matches
  before a final newline).
\<close>

definition qual_match :: "string \<Rightarrow> bool" where
  "qual_match s =
     (case s of
        [] \<Rightarrow> False
      | c # cs \<Rightarrow>
          (c = CHR ''<'' \<or> c = CHR ''>'') \<and>
          (let r = dropWhile is_space cs;
               ip = takeWhile is_digit r;
               r1 = dropWhile is_digit r;
               at_end = (\<lambda>t. t = [] \<or> t = [CHR 0x0A])
           in ip \<noteq> [] \<and>
              (at_end r1 \<or>
               (r1 \<noteq> [] \<and> hd r1 = CHR ''.'' \<and> takeWhile is_digit (tl r1) \<noteq> [] \<and>
                at_end (dropWhile is_digit (tl r1))))))"

text \<open>
  \<open>pd.to_numeric(col.astype(str).str.strip().replace(qual_pattern, np.nan, regex=True),
  errors="coerce")\<close> on one cell.  An empty cell becomes the text \<open>nan\<close> or \<open>None\<close>
  and then NaN; the text of a float is read back as that float.
\<close>

definition crm_clean :: "cell \<Rightarrow> pyfloat" where
  "crm_clean x =
     (case x of
        Missing \<Rightarrow> NaN
      | Num r \<Rightarrow> Fin r
      | Str s \<Rightarrow> (let t = strip s in if qual_match t then NaN else str_to_numeric t))"

record crm_result =
  c_CRM :: "string option"
  c_Analyte :: string
  c_Unit :: string
  c_Measured :: pyfloat
  c_Certified :: pyfloat
  c_DL :: real
  c_Recovery :: field
  c_Bias :: field
  c_CRM_Status :: string

text \<open>One row of the merged table for one analyte; the masks as in \<open>dup_row\<close>.\<close>

definition crm_row ::
  "string option \<Rightarrow> meta \<Rightarrow> cell \<Rightarrow> cell \<Rightarrow> real \<Rightarrow> real \<Rightarrow> crm_result" where
  "crm_row base m meas_raw cert_raw low_tol high_tol =
     (let d = dl m;
          measured = crm_clean meas_raw;
          certified = crm_clean cert_raw;
          meas_blank = (\<not> notna measured);
          cert_blank = (\<not> notna certified);
          both_missing = (meas_blank \<and> cert_blank);
          one_missing = ((meas_blank \<or> cert_blank) \<and> \<not> both_missing);
          recovery0 = FNone;
          bias0 = FNone;
          status0 = [];
          recovery1 = (if both_missing then FStr [] else recovery0);
          bias1 = (if both_missing then FStr [] else bias0);
          status1 = (if both_missing then ''NotApplicable'' else status0);
          recovery2 = (if one_missing then FStr [] else recovery1);
          bias2 = (if one_missing then FStr [] else bias1);
          status2 = (if one_missing then ''NotEvaluated'' else status1);
          cert_below_dl = flt certified (Fin d);
          mask_cert_below = (cert_below_dl \<and> \<not> (both_missing \<or> one_missing));
          recovery3 = (if mask_cert_below then FStr [] else recovery2);
          bias3 = (if mask_cert_below then FStr [] else bias2);
          status3 = (if mask_cert_below then ''NotApplicable'' else status2);
          mask_cert_below_10x = (flt certified (Fin (10 * d)) \<and>
                                 \<not> (both_missing \<or> one_missing \<or> mask_cert_below));
          recovery4 = (if mask_cert_below_10x then FStr [] else recovery3);
          bias4 = (if mask_cert_below_10x then FStr [] else bias3);
          status4 = (if mask_cert_below_10x then ''Below10xDL'' else status3);
          mask_needs_inv = (fge certified (Fin d) \<and> flt measured (Fin d) \<and>
                            \<not> (both_missing \<or> one_missing \<or> mask_cert_below \<or> mask_cert_below_10x));
          recovery5 = (if mask_needs_inv then FStr ''BDL'' else recovery4);
          bias5 = (if mask_needs_inv then FStr ''BDL'' else bias4);
          status5 = (if mask_needs_inv then ''Needs Investigation'' else status4);
          valid_mask = (\<not> (both_missing \<or> one_missing \<or> mask_cert_below \<or> mask_cert_below_10x
                            \<or> mask_needs_inv) \<and> notna measured \<and> notna certified);
          recovery6 = (if valid_mask then FNum (fmul (fdiv measured certified) (Fin 100))
                       else recovery5);
          bias6 = (if valid_mask then FNum (fsub (field_to_numeric recovery6) (Fin 100))
                   else bias5);
          recovery_num = field_to_numeric recovery6;
          numeric_mask = (valid_mask \<and> notna recovery_num);
          status6 = (if numeric_mask \<and> fge recovery_num (Fin low_tol)
                        \<and> fle recovery_num (Fin high_tol) then ''OK'' else status5);
          status7 = (if numeric_mask \<and> (flt recovery_num (Fin low_tol)
                        \<or> fgt recovery_num (Fin high_tol)) then ''Fail'' else status6)
      in \<lparr>c_CRM = base, c_Analyte = analyte m, c_Unit = unit m,
          c_Measured = measured, c_Certified = certified, c_DL = d,
          c_Recovery = recovery6, c_Bias = bias6, c_CRM_Status = status7\<rparr>)"

text \<open>
  The pairing: the rows of one base name are numbered in their order
  (\<open>groupby("CRM_Base").cumcount()\<close>), and a measured row is joined with the
  certified row of the same base name and number.
\<close>

fun cumcount :: "qc_row list \<Rightarrow> qc_row list \<Rightarrow> (qc_row \<times> nat) list" where
  "cumcount seen [] = []"
| "cumcount seen (r # rs) =
     (r, length (filter (\<lambda>s. crm_base_name (Sample s) = crm_base_name (Sample r)) seen))
     # cumcount (seen @ [r]) rs"

definition sample_contains :: "qc_row \<Rightarrow> string \<Rightarrow> bool" where
  "sample_contains r sub = (case Sample r of None \<Rightarrow> False | Some s \<Rightarrow> str_contains s sub)"

definition crm_pairs :: "qc_table \<Rightarrow> (qc_row \<times> qc_row) list" where
  "crm_pairs df =
     (let df_crm = filter (\<lambda>r. QC_Type r = ''CRM'') (rows df);
          df_meas = cumcount [] (filter (\<lambda>r. sample_contains r '' Meas'') df_crm);
          df_cert = cumcount [] (filter (\<lambda>r. sample_contains r '' Cert'') df_crm)
      in concat (map (\<lambda>(a, i). map (\<lambda>(b, j). (a, b))
                   (filter (\<lambda>(b, j). crm_base_name (Sample b) = crm_base_name (Sample a) \<and> j = i)
                      df_cert))
                 df_meas))"

definition crm_analyte :: "qc_table \<Rightarrow> meta \<Rightarrow> real \<Rightarrow> real \<Rightarrow> crm_result list" where
  "crm_analyte df m low_tol high_tol =
     (if col_name m \<in> set (columns df)
      then map (\<lambda>(a, b). crm_row (crm_base_name (Sample a)) m
                           (cells a (col_name m)) (cells b (col_name m)) low_tol high_tol)
               (crm_pairs df)
      else [])"

definition compute_crm_recovery :: "qc_table \<Rightarrow> metadata \<Rightarrow> real \<Rightarrow> real \<Rightarrow> crm_result list" where
  "compute_crm_recovery df md low_tol high_tol =
     concat (map (\<lambda>(i, m). crm_analyte df m low_tol high_tol) md)"

section \<open>Aggregator (\<open>qc_summary.py\<close>)\<close>

text \<open>\<open>normalize_status\<close>: an absent column or a NaN cell is \<open>None\<close>.\<close>

definition normalize_status :: "string option \<Rightarrow> string" where
  "normalize_status x = (case x of None \<Rightarrow> ''NotEvaluated'' | Some s \<Rightarrow> s)"

definition compute_crm_final_status :: "string list \<Rightarrow> string" where
  "compute_crm_final_status statuses =
     (let fail_count = count_list statuses ''Fail'';
          ni_count = count_list statuses ''Needs Investigation'';
          ok_count = count_list statuses ''OK''
      in if fail_count \<ge> 2 then ''Fail''
         else if fail_count = 1 then ''Needs Investigation''
         else if ni_count > 0 then ''Needs Investigation''
         else if ok_count > 0 then ''OK''
         else if list_all (\<lambda>s. s \<in> set [''NotApplicable'', ''Below10xDL'']) statuses
           then ''NotApplicable''
         else ''NotEvaluated'')"

text \<open>
  The precedence of the CRM module as the specification words it, to be compared
  with \<open>compute_crm_final_status\<close>.
\<close>

definition crm_final_status_spec :: "string list \<Rightarrow> string" where
  "crm_final_status_spec statuses =
     (if 2 \<le> length (filter (\<lambda>s. s = ''Fail'') statuses) then ''Fail''
      else if length (filter (\<lambda>s. s = ''Fail'') statuses) = 1 then ''Needs Investigation''
      else if ''Needs Investigation'' \<in> set statuses then ''Needs Investigation''
      else if ''OK'' \<in> set statuses then ''OK''
      else if set statuses \<subseteq> {''NotApplicable'', ''Below10xDL''} then ''NotApplicable''
      else ''NotEvaluated'')"

definition compute_dup_final_status :: "string list \<Rightarrow> string" where
  "compute_dup_final_status statuses =
     (if ''Fail_RPD'' \<in> set statuses then ''Fail''
      else if ''BDL_Substitution'' \<in> set statuses then ''Needs Investigation''
      else if ''NotEvaluated'' \<in> set statuses then ''Needs Investigation''
      else if ''OK'' \<in> set statuses then ''OK''
      else if list_all (\<lambda>s. s \<in> set [''BothBDL'', ''Below10xDL'']) statuses
        then ''NotApplicable''
      else ''NotEvaluated'')"

text \<open>The columns that each module contributes to a row of the summary.\<close>

record crm_summary =
  CRM_Recovery :: pyfloat
  CRM_Bias :: pyfloat
  CRM_PassCount :: nat
  CRM_FailCount :: nat
  CRM_NeedsInvestigationCount :: nat
  CRM_Below10xDLCount :: nat
  CRM_NotApplicableCount :: nat
  CRM_NotEvaluatedCount :: nat
  CRM_TotalEvaluated :: nat
  CRM_FinalStatus :: string

record dup_summary =
  Duplicate_RPD :: pyfloat
  Duplicate_PassCount :: nat
  Duplicate_FailCount :: nat
  Duplicate_BDLSubCount :: nat
  Duplicate_BothBDLCount :: nat
  Duplicate_Below10xDLCount :: nat
  Duplicate_NotEvaluatedCount :: nat
  Duplicate_TotalEvaluated :: nat
  Duplicate_Status :: string

record blank_summary =
  Blank_Average :: field
  Blank_StDev :: field
  Blank_Status :: string

definition reduce_crm :: "crm_result list \<Rightarrow> crm_summary" where
  "reduce_crm grp =
     (let statuses = map c_CRM_Status grp in
      \<lparr>CRM_Recovery = mean (map (\<lambda>r. field_to_numeric (c_Recovery r)) grp),
       CRM_Bias = mean (map (\<lambda>r. field_to_numeric (c_Bias r)) grp),
       CRM_PassCount = count_list statuses ''OK'',
       CRM_FailCount = count_list statuses ''Fail'',
       CRM_NeedsInvestigationCount = count_list statuses ''Needs Investigation'',
       CRM_Below10xDLCount = count_list statuses ''Below10xDL'',
       CRM_NotApplicableCount = count_list statuses ''NotApplicable'',
       CRM_NotEvaluatedCount = count_list statuses ''NotEvaluated'',
       CRM_TotalEvaluated = count_list statuses ''OK'' + count_list statuses ''Fail''
                            + count_list statuses ''Needs Investigation'',
       CRM_FinalStatus = compute_crm_final_status statuses\<rparr>)"

definition reduce_dup :: "dup_result list \<Rightarrow> dup_summary" where
  "reduce_dup grp =
     (let statuses = map d_Status grp in
      \<lparr>Duplicate_RPD = mean (map (\<lambda>r. field_to_numeric (d_RPD r)) grp),
       Duplicate_PassCount = count_list statuses ''OK'',
       Duplicate_FailCount = count_list statuses ''Fail_RPD'',
       Duplicate_BDLSubCount = count_list statuses ''BDL_Substitution'',
       Duplicate_BothBDLCount = count_list statuses ''BothBDL'',
       Duplicate_Below10xDLCount = count_list statuses ''Below10xDL'',
       Duplicate_NotEvaluatedCount = count_list statuses ''NotEvaluated'',
       Duplicate_TotalEvaluated = count_list statuses ''OK'' + count_list statuses ''Fail_RPD'',
       Duplicate_Status = compute_dup_final_status statuses\<rparr>)"

text \<open>
  \<open>table.groupby(["Analyte", "Unit"], as_index=False).apply(reduce)\<close>: one row for
  each key of the table, the keys in ascending order.
\<close>

type_synonym key = "string \<times> string"

definition groupby_apply :: "('r \<Rightarrow> key) \<Rightarrow> ('r list \<Rightarrow> 's) \<Rightarrow> 'r list \<Rightarrow> (key \<times> 's) list" where
  "groupby_apply key_of reduce table =
     map (\<lambda>k. (k, reduce (filter (\<lambda>r. key_of r = k) table)))
         (sort (remdups (map key_of table)))"

text \<open>
  \<open>pd.merge(left, right, on=["Analyte", "Unit"], how="left")\<close>: every row of the left
  table in its order, once with each right row of its key, or once with empty
  right columns (\<open>None\<close>) when the right table has no row of that key.
\<close>

definition left_merge :: "(key \<times> 'a) list \<Rightarrow> (key \<times> 'b) list \<Rightarrow> (key \<times> 'a \<times> 'b option) list" where
  "left_merge left right =
     concat (map (\<lambda>(k, a).
                    (case filter (\<lambda>(k', b). k' = k) right of
                       [] \<Rightarrow> [(k, a, None)]
                     | ms \<Rightarrow> map (\<lambda>(k', b). (k, a, Some b)) ms))
                 left)"

text \<open>
  \<open>safe_merge\<close>: an empty right table leaves the left table as it is, without the
  columns of the right table (read as \<open>None\<close> by \<open>row.get\<close>).
\<close>

definition safe_merge :: "(key \<times> 'a) list \<Rightarrow> (key \<times> 'b) list \<Rightarrow> (key \<times> 'a \<times> 'b option) list" where
  "safe_merge left right =
     (if right = [] then map (\<lambda>(k, a). (k, a, None)) left else left_merge left right)"

record merged_row =
  Analyte :: string
  Unit :: string
  crm_part :: crm_summary
  dup_part :: "dup_summary option"
  blank_part :: "blank_summary option"

record summary_row = merged_row +
  Final_QC_Flag :: string

definition final_flag :: "merged_row \<Rightarrow> string" where
  "final_flag row =
     (let crm = normalize_status (Some (CRM_FinalStatus (crm_part row)));
          dup = normalize_status (map_option Duplicate_Status (dup_part row));
          blank = normalize_status (map_option Blank_Status (blank_part row))
      in if crm = ''Fail'' \<or> dup = ''Fail'' \<or> blank = ''Fail'' then ''Fail''
         else if crm = ''Needs Investigation'' then ''Needs Investigation''
         else if dup \<in> set [''BDL_Substitution'', ''NotEvaluated''] then ''Needs Investigation''
         else if blank \<in> set [''Needs Investigation'', ''NotEvaluated''] then ''Needs Investigation''
         else ''Pass'')"

text \<open>
  \<open>build_qc_summary\<close>.  The last step, \<open>summary[col_order]\<close>, raises \<open>KeyError\<close> when
  a column of \<open>col_order\<close> is missing: \<open>CRM_Below10xDLCount\<close> when the CRM table is
  empty, the columns of a module whose reduced table is empty and was therefore
  not merged.
\<close>

definition build_qc_summary ::
  "crm_result list \<Rightarrow> dup_result list \<Rightarrow> blank_result list \<Rightarrow> error + summary_row list" where
  "build_qc_summary crm dup blank =
     (let crm_small = groupby_apply (\<lambda>r. (c_Analyte r, c_Unit r)) reduce_crm crm;
          dup_small = groupby_apply (\<lambda>r. (d_Analyte r, d_Unit r)) reduce_dup dup;
          blank_small = map (\<lambda>b. ((b_Analyte b, b_Unit b),
                                   \<lparr>Blank_Average = b_Average b, Blank_StDev = b_StDev b,
                                    Blank_Status = b_Blank_Status b\<rparr>)) blank;
          summary = safe_merge (safe_merge crm_small dup_small) blank_small;
          merged = map (\<lambda>((a, u), (c, d), b).
                          \<lparr>Analyte = a, Unit = u, crm_part = c, dup_part = d, blank_part = b\<rparr>)
                       summary;
          flagged = map (\<lambda>row. merged_row.extend row
                                  (summary_row.fields (final_flag row))) merged
      in if crm = [] \<or> dup_small = [] \<or> blank_small = [] then Inl KeyError
         else Inr flagged)"

section \<open>Example inputs\<close>

text \<open>A one-analyte batch: copper in ppm, read from the column \<open>Cu_ppm\<close>.\<close>

definition ex_meta :: "real \<Rightarrow> meta" where
  "ex_meta d = \<lparr>analyte = ''Cu'', unit = ''ppm'', dl = d\<rparr>"

definition ex_row :: "string \<Rightarrow> string \<Rightarrow> cell \<Rightarrow> qc_row" where
  "ex_row name ty c = \<lparr>Sample = Some name, QC_Type = ty, cells = (\<lambda>_. Missing)(''Cu_ppm'' := c)\<rparr>"

definition ex_table :: "qc_row list \<Rightarrow> qc_table" where
  "ex_table rs = \<lparr>columns = [''Cu_ppm''], rows = rs\<rparr>"

definition ex_meta_Zn :: meta where
  "ex_meta_Zn = \<lparr>analyte = ''Zn'', unit = ''ppm'', dl = 1\<rparr>"

text \<open>
  Result tables as the evaluators produce them: a CRM pair within tolerance, a
  duplicate pair with one censored side, a duplicate pair of zinc, and a blank
  with a censored cell.
\<close>

definition ex_crm_OK :: "crm_result list" where
  "ex_crm_OK = [crm_row (Some ''CRM1'') (ex_meta 1) (Num 55) (Num 50) 80 120]"

definition ex_dup_BDL :: "dup_result list" where
  "ex_dup_BDL = [dup_row (Some ''S1'') (ex_meta 1) (Str ''<1'') (Num 20) 30]"

definition ex_dup_Zn :: "dup_result list" where
  "ex_dup_Zn = [dup_row (Some ''S1'') ex_meta_Zn (Num 50) (Num 60) 30]"

definition ex_blank_OK :: "blank_result list" where
  "ex_blank_OK = [blank_analyte [ex_row ''Blank 1'' ''Blank'' (Str ''< 1'')] (ex_meta 1) 3
                    (RuleStr ''half'')]"

text \<open>The summary row of copper when the duplicates of the batch are all of zinc.\<close>

definition ex_summary_Cu :: summary_row where
  "ex_summary_Cu =
     \<lparr>Analyte = ''Cu'', Unit = ''ppm'',
      crm_part = \<lparr>CRM_Recovery = Fin 110, CRM_Bias = Fin 10, CRM_PassCount = 1,
        CRM_FailCount = 0, CRM_NeedsInvestigationCount = 0, CRM_Below10xDLCount = 0,
        CRM_NotApplicableCount = 0, CRM_NotEvaluatedCount = 0, CRM_TotalEvaluated = 1,
        CRM_FinalStatus = ''OK''\<rparr>,
      dup_part = None,
      blank_part = Some \<lparr>Blank_Average = FNum (Fin (1 / 2)), Blank_StDev = FNum (Fin 0),
        Blank_Status = ''OK''\<rparr>,
      Final_QC_Flag = ''Needs Investigation''\<rparr>"

section \<open>Properties\<close>

lemma py_float_examples:
  "py_float ''5.0'' = Some (Fin 5)"
  "py_float '' 1_0.25e-1 '' = Some (Fin (41 / 40))"
  "py_float ''-Inf'' = Some NInf"
  "py_float ''abc'' = None"
  "py_float ''< 0.1'' = None"
  "py_float '''' = None"
  "py_float ''1__0'' = None"
  by (simp_all add: py_float_def strip_def lstrip_def rstrip_def is_space_def
      parse_unsigned_def parse_number_def parse_exponent_def lower_def lower_char_def
      is_digit_def digit_val_def digits_val_def)

lemmas str_defs = startswith_def strip_def lstrip_def rstrip_def is_space_def lower_def
  lower_char_def

lemmas parse_defs = py_float_def parse_unsigned_def parse_number_def parse_exponent_def
  is_digit_def digit_val_def digits_val_def str_to_numeric_def

lemmas ex_defs = ex_meta_def ex_row_def ex_table_def col_name_def

subsection \<open>Blank evaluator\<close>

lemma is_bdl_not_isna: "is_bdl x \<Longrightarrow> \<not> isna x"
  by (cases x) (simp_all add: isna_def)

lemma blank_analyte_censored:
  assumes "list_ex is_bdl (map (\<lambda>r. cells r (col_name m)) df_blank)"
  shows "b_Blank_Status (blank_analyte df_blank m tolerance_factor rule) = ''OK''"
proof -
  let ?raw = "map (\<lambda>r. cells r (col_name m)) df_blank"
  from assms obtain x where x: "x \<in> set ?raw" "is_bdl x"
    unfolding list_ex_iff by blast
  then have "\<not> isna x" by (simp add: is_bdl_not_isna)
  with x have "\<not> list_all isna ?raw" unfolding list_all_iff by blast
  with assms show ?thesis
    by (simp add: blank_analyte_def Let_def)
qed

text \<open>
  C4.  If a blank row holds a censored cell in the column of a mapped analyte,
  \<open>compute_blank_qc\<close> returns a table, the table holds the record of that analyte,
  and the status of the record is \<open>OK\<close>, whatever the other cells of the column,
  the tolerance factor and the substitution rule are.
\<close>

theorem blank_censored_status_OK:
  assumes "r \<in> set (rows df)" and "str_contains (QC_Type r) ''Blank''"
    and "(i, m) \<in> set md" and "col_name m \<in> set (columns df)"
    and "is_bdl (cells r (col_name m))"
  shows "\<exists>results.
           compute_blank_qc df md tolerance_factor rule = Inr results \<and>
           blank_analyte (filter (\<lambda>r. str_contains (QC_Type r) ''Blank'') (rows df)) m
             tolerance_factor rule \<in> set results \<and>
           b_Blank_Status
             (blank_analyte (filter (\<lambda>r. str_contains (QC_Type r) ''Blank'') (rows df)) m
                tolerance_factor rule) = ''OK''"
proof -
  let ?blank = "filter (\<lambda>r. str_contains (QC_Type r) ''Blank'') (rows df)"
  let ?mapped = "filter (\<lambda>(i, m). col_name m \<in> set (columns df)) md"
  let ?results = "map (\<lambda>(i, m). blank_analyte ?blank m tolerance_factor rule) ?mapped"
  from assms(1,2) have rb: "r \<in> set ?blank" by simp
  then have ne: "?blank \<noteq> []" by (metis empty_iff empty_set)
  from assms(3,4) have im: "(i, m) \<in> set ?mapped" by simp
  then have "?mapped \<noteq> []" by (metis empty_iff empty_set)
  then have ne': "?results \<noteq> []" by simp
  from im have mem: "blank_analyte ?blank m tolerance_factor rule \<in> set ?results"
    by (force simp: image_iff)
  have eq: "compute_blank_qc df md tolerance_factor rule = Inr ?results"
    using ne ne' by (simp add: compute_blank_qc_def Let_def)
  from rb assms(5) have "list_ex is_bdl (map (\<lambda>r. cells r (col_name m)) ?blank)"
    unfolding list_ex_iff by auto
  then have "b_Blank_Status (blank_analyte ?blank m tolerance_factor rule) = ''OK''"
    by (rule blank_analyte_censored)
  with eq mem show ?thesis by blast
qed

theorem blank_censored_status_OK_witness:
  "compute_blank_qc
     (ex_table [ex_row ''Blank 1'' ''Blank'' (Str ''< 0.1''),
                ex_row ''Blank 2'' ''Blank'' (Str ''5.0'')])
     [(1, ex_meta (1 / 10))] 3 (RuleStr ''half'')
   = Inr [\<lparr>b_Analyte = ''Cu'', b_Unit = ''ppm'', b_DL = 1 / 10,
           b_Values = [Str ''< 0.1'', Str ''5.0''],
           b_Average = FNum (Fin (101 / 40)), b_StDev = FNum (Fin (99 / 40)),
           b_Blank_Status = ''OK''\<rparr>]"
proof -
  let ?r = "ex_row ''Blank 1'' ''Blank'' (Str ''< 0.1'')"
  let ?df = "ex_table [?r, ex_row ''Blank 2'' ''Blank'' (Str ''5.0'')]"
  let ?m = "ex_meta (1 / 10)"
  have c: "col_name ?m = ''Cu_ppm''" by (simp add: ex_defs startswith_def)
  have h1: "?r \<in> set (rows ?df)" by (simp add: ex_defs)
  have h2: "str_contains (QC_Type ?r) ''Blank''" by (simp add: ex_defs startswith_def)
  have h3: "(1, ?m) \<in> set [(1, ?m)]" by simp
  have h4: "col_name ?m \<in> set (columns ?df)" by (simp add: c) (simp add: ex_defs)
  have h5: "is_bdl (cells ?r (col_name ?m))" by (simp add: c) (simp add: ex_defs str_defs)
  have s: "sqrt (9801 / 1600) = 99 / 40"
    by (rule real_sqrt_unique) (simp_all add: power2_eq_square)
  from blank_censored_status_OK [OF h1 h2 h3 h4 h5, of 3 "RuleStr ''half''"]
  show ?thesis
    by (simp add: compute_blank_qc_def blank_analyte_def c Let_def)
       (simp add: ex_defs isna_def str_defs blank_to_numeric_with_bdl_def parse_defs
          mean_def std0_def dropna_def notna_def fsum_def fsub_def s)
qed

lemma blank_analyte_unparseable:
  assumes "\<forall>x \<in> set (map (\<lambda>r. cells r (col_name m)) df_blank).
             x = Missing \<or> (\<exists>s. x = Str s \<and> \<not> is_bdl x \<and> py_float s = None)"
    and "\<exists>x \<in> set (map (\<lambda>r. cells r (col_name m)) df_blank). x \<noteq> Missing"
  shows "b_Blank_Status (blank_analyte df_blank m tolerance_factor rule) = ''Fail''"
proof -
  let ?raw = "map (\<lambda>r. cells r (col_name m)) df_blank"
  have nb: "\<not> list_ex is_bdl ?raw" using assms(1) unfolding list_ex_iff by auto
  have na: "\<not> list_all isna ?raw" using assms(2) unfolding list_all_iff isna_def by auto
  have "\<forall>x \<in> set ?raw. blank_to_numeric_with_bdl x (dl m) rule = NaN"
    using assms(1) by (auto simp: blank_to_numeric_with_bdl_def isna_def)
  then have "dropna (map (\<lambda>x. blank_to_numeric_with_bdl x (dl m) rule) ?raw) = []"
    by (auto simp: dropna_def notna_def filter_empty_conv)
  then show ?thesis using nb na
    by (simp add: blank_analyte_def Let_def mean_def dropna_def comp_def)
qed

text \<open>
  C8.  A blank column whose only cell is the text \<open>abc\<close>, which is not censored and
  does not parse as a float: the cell is not empty, so the column passes the test
  for \<open>NotEvaluated\<close>; its numeric value is NaN, the average over no value is NaN,
  both comparisons with NaN are false, and the status is \<open>Fail\<close>.
\<close>

theorem blank_unparseable_column_Fail:
  "compute_blank_qc (ex_table [ex_row ''Blank 1'' ''Blank'' (Str ''abc'')])
     [(1, ex_meta 1)] 3 (RuleStr ''half'')
   = Inr [\<lparr>b_Analyte = ''Cu'', b_Unit = ''ppm'', b_DL = 1, b_Values = [Str ''abc''],
           b_Average = FNum NaN, b_StDev = FNum NaN, b_Blank_Status = ''Fail''\<rparr>]"
proof -
  have c: "col_name (ex_meta 1) = ''Cu_ppm''" by (simp add: ex_defs startswith_def)
  show ?thesis
    by (simp add: compute_blank_qc_def blank_analyte_def c Let_def)
       (simp add: ex_defs isna_def str_defs blank_to_numeric_with_bdl_def parse_defs
          mean_def std0_def dropna_def notna_def)
qed

subsection \<open>Duplicate evaluator\<close>

lemma dup_row_numeric:
  assumes "\<not> isna x" "\<not> is_bdl x" "dup_to_numeric_with_bdl x (dl m) = Fin a"
    and "\<not> isna y" "\<not> is_bdl y" "dup_to_numeric_with_bdl y (dl m) = Fin b"
  shows "dup_row base m x y tol =
     (if a > 10 * dl m \<and> b > 10 * dl m
      then \<lparr>d_Sample = base, d_Analyte = analyte m, d_Unit = unit m, d_Orig = x, d_Dup = y,
            d_Orig_num = Fin a, d_Dup_num = Fin b, d_DL = dl m, d_Above10xDL = True,
            d_RPD = FNum (rpd_formula (Fin a) (Fin b)),
            d_Status =
              (if notna (rpd_formula (Fin a) (Fin b))
                  \<and> fgt (rpd_formula (Fin a) (Fin b)) (Fin tol) then ''Fail_RPD''
               else if notna (rpd_formula (Fin a) (Fin b))
                  \<and> fle (rpd_formula (Fin a) (Fin b)) (Fin tol) then ''OK''
               else [])\<rparr>
      else \<lparr>d_Sample = base, d_Analyte = analyte m, d_Unit = unit m, d_Orig = x, d_Dup = y,
            d_Orig_num = Fin a, d_Dup_num = Fin b, d_DL = dl m, d_Above10xDL = False,
            d_RPD = FStr [], d_Status = ''Below10xDL''\<rparr>)"
  using assms by (simp add: dup_row_def Let_def fgt_def)


lemmas dup_eval = dup_row_def Let_def isna_def str_defs dup_to_numeric_with_bdl_def
  parse_defs fgt_def rpd_formula_def fsub_def notna_def dup_bdl_substitution_def



text \<open>
  C9.  Both cells of a pair are present, not censored and read as finite numbers,
  and exactly one of the two exceeds ten times the detection limit: the status is
  \<open>Below10xDL\<close>, the RPD field is the empty string and the flag \<open>Above10xDL\<close> is
  false.
\<close>

theorem dup_mixed_pair_Below10xDL:
  assumes "\<not> isna x" "\<not> is_bdl x" "dup_to_numeric_with_bdl x (dl m) = Fin a"
    and "\<not> isna y" "\<not> is_bdl y" "dup_to_numeric_with_bdl y (dl m) = Fin b"
    and "(a > 10 * dl m) \<noteq> (b > 10 * dl m)"
  shows "d_Status (dup_row base m x y tol) = ''Below10xDL'' \<and>
         d_RPD (dup_row base m x y tol) = FStr [] \<and>
         d_Above10xDL (dup_row base m x y tol) = False"
  using assms(7) by (auto simp add: dup_row_numeric [OF assms(1-6)])

theorem dup_mixed_pair_Below10xDL_witness:
  "d_Status (dup_row (Some ''S1'') (ex_meta 1) (Num 5) (Str ''60'') 30) = ''Below10xDL'' \<and>
   d_RPD (dup_row (Some ''S1'') (ex_meta 1) (Num 5) (Str ''60'') 30) = FStr [] \<and>
   d_Above10xDL (dup_row (Some ''S1'') (ex_meta 1) (Num 5) (Str ''60'') 30) = False"
proof -
  have n: "\<not> isna (Num 5)" "\<not> is_bdl (Num 5)"
    "dup_to_numeric_with_bdl (Num 5) (dl (ex_meta 1)) = Fin 5"
    by (simp_all add: isna_def dup_to_numeric_with_bdl_def)
  have s60: "\<not> isna (Str ''60'')" "\<not> is_bdl (Str ''60'')"
    "dup_to_numeric_with_bdl (Str ''60'') (dl (ex_meta 1)) = Fin 60"
    by (simp_all add: isna_def dup_to_numeric_with_bdl_def str_defs parse_defs)
  have h: "((5::real) > 10 * dl (ex_meta 1)) \<noteq> (60 > 10 * dl (ex_meta 1))"
    by (simp add: ex_meta_def)
  from dup_mixed_pair_Below10xDL [OF n s60 h] show ?thesis .
qed

subsection \<open>The pairing of the duplicate evaluator\<close>

lemma dup_merge_count:
  "length (filter (\<lambda>(a, b). dup_base_name (Sample a) = k) (dup_merge os ds))
   = length (filter (\<lambda>a. dup_base_name (Sample a) = k) os)
     * length (filter (\<lambda>b. dup_base_name (Sample b) = k) ds)"
proof (induction os)
  case Nil
  show ?case by (simp add: dup_merge_def)
next
  case (Cons a os)
  have *: "dup_merge (a # os) ds =
       map (\<lambda>b. (a, b)) (filter (\<lambda>b. dup_base_name (Sample b) = dup_base_name (Sample a)) ds)
       @ dup_merge os ds"
    by (simp add: dup_merge_def)
  have "length (filter (\<lambda>(a, b). dup_base_name (Sample a) = k)
           (map (\<lambda>b. (a, b))
              (filter (\<lambda>b. dup_base_name (Sample b) = dup_base_name (Sample a)) ds)))
        = (if dup_base_name (Sample a) = k
           then length (filter (\<lambda>b. dup_base_name (Sample b) = k) ds) else 0)"
    by (simp add: filter_map comp_def)
  with Cons show ?case by (simp add: *)
qed

lemma dup_pairs_eq:
  "dup_pairs df = dup_merge (filter (\<lambda>r. QC_Type r = ''Duplicate_Orig'') (rows df))
                            (filter (\<lambda>r. QC_Type r = ''Duplicate_Dup'') (rows df))"
proof -
  have a: "filter (\<lambda>r. QC_Type r = ''Duplicate_Orig'')
             (filter (\<lambda>r. str_contains (QC_Type r) ''Duplicate'') xs)
      = filter (\<lambda>r. QC_Type r = ''Duplicate_Orig'') xs" for xs :: "qc_row list"
    by (induction xs) (auto simp: startswith_def)
  have b: "filter (\<lambda>r. QC_Type r = ''Duplicate_Dup'')
             (filter (\<lambda>r. str_contains (QC_Type r) ''Duplicate'') xs)
      = filter (\<lambda>r. QC_Type r = ''Duplicate_Dup'') xs" for xs :: "qc_row list"
    by (induction xs) (auto simp: startswith_def)
  show ?thesis by (simp add: dup_pairs_def Let_def a b del: filter_filter)
qed

lemma dup_row_Sample: "d_Sample (dup_row base m x y tol) = base"
  by (simp add: dup_row_def Let_def)

lemma dup_analyte_count:
  "length (filter (\<lambda>r. d_Sample r = k) (dup_analyte df m tol))
   = (if col_name m \<in> set (columns df)
      then length (filter (\<lambda>r. QC_Type r = ''Duplicate_Orig'' \<and> dup_base_name (Sample r) = k)
                     (rows df))
         * length (filter (\<lambda>r. QC_Type r = ''Duplicate_Dup'' \<and> dup_base_name (Sample r) = k)
                     (rows df))
      else 0)"
proof (cases "col_name m \<in> set (columns df)")
  case False
  then show ?thesis by (simp add: dup_analyte_def)
next
  case True
  have "length (filter (\<lambda>r. d_Sample r = k) (dup_analyte df m tol))
      = length (filter (\<lambda>(a, b). dup_base_name (Sample a) = k) (dup_pairs df))"
    using True by (simp add: dup_analyte_def filter_map comp_def case_prod_unfold dup_row_Sample)
  also have "\<dots> =
       length (filter (\<lambda>a. dup_base_name (Sample a) = k)
                 (filter (\<lambda>r. QC_Type r = ''Duplicate_Orig'') (rows df)))
     * length (filter (\<lambda>b. dup_base_name (Sample b) = k)
                 (filter (\<lambda>r. QC_Type r = ''Duplicate_Dup'') (rows df)))"
    by (simp only: dup_pairs_eq dup_merge_count)
  finally show ?thesis using True by (simp add: conj_commute)
qed

text \<open>
  C10.  For a base key \<open>k\<close> with \<open>m\<close> rows of type \<open>Duplicate_Orig\<close> and \<open>n\<close> rows of
  type \<open>Duplicate_Dup\<close>, the frame of a mapped analyte holds exactly \<open>m * n\<close> records
  of that key (none when \<open>m = 0\<close> or \<open>n = 0\<close>), the frame of an analyte without column
  holds none, and the whole result holds \<open>m * n\<close> records of the key for each mapped
  metadata entry.
\<close>

theorem dup_records_cross_product:
  "length (filter (\<lambda>r. d_Sample r = k) (dup_analyte df m tol))
   = (if col_name m \<in> set (columns df)
      then length (filter (\<lambda>r. QC_Type r = ''Duplicate_Orig'' \<and> dup_base_name (Sample r) = k)
                     (rows df))
         * length (filter (\<lambda>r. QC_Type r = ''Duplicate_Dup'' \<and> dup_base_name (Sample r) = k)
                     (rows df))
      else 0)
   \<and> length (filter (\<lambda>r. d_Sample r = k) (compute_duplicate_rpd df md tol))
   = length (filter (\<lambda>(i, m). col_name m \<in> set (columns df)) md)
     * (length (filter (\<lambda>r. QC_Type r = ''Duplicate_Orig'' \<and> dup_base_name (Sample r) = k)
                  (rows df))
        * length (filter (\<lambda>r. QC_Type r = ''Duplicate_Dup'' \<and> dup_base_name (Sample r) = k)
                    (rows df)))"
proof
  show "length (filter (\<lambda>r. d_Sample r = k) (dup_analyte df m tol))
   = (if col_name m \<in> set (columns df)
      then length (filter (\<lambda>r. QC_Type r = ''Duplicate_Orig'' \<and> dup_base_name (Sample r) = k)
                     (rows df))
         * length (filter (\<lambda>r. QC_Type r = ''Duplicate_Dup'' \<and> dup_base_name (Sample r) = k)
                     (rows df))
      else 0)"
    by (rule dup_analyte_count)
next
  show "length (filter (\<lambda>r. d_Sample r = k) (compute_duplicate_rpd df md tol))
   = length (filter (\<lambda>(i, m). col_name m \<in> set (columns df)) md)
     * (length (filter (\<lambda>r. QC_Type r = ''Duplicate_Orig'' \<and> dup_base_name (Sample r) = k)
                  (rows df))
        * length (filter (\<lambda>r. QC_Type r = ''Duplicate_Dup'' \<and> dup_base_name (Sample r) = k)
                    (rows df)))"
    unfolding compute_duplicate_rpd_def
  proof (induction md)
    case Nil
    show ?case by simp
  next
    case (Cons p md)
    obtain i m' where p: "p = (i, m')" by (cases p)
    show ?case using Cons
      by (simp only: p list.map concat.simps filter_append length_append split_conv
          dup_analyte_count filter.simps)
         (simp add: algebra_simps)
  qed
qed

theorem dup_records_cross_product_witness:
  "map d_Sample
     (compute_duplicate_rpd
        (ex_table [ex_row ''S1 Orig'' ''Duplicate_Orig'' (Num 50),
                   ex_row ''S1 Orig'' ''Duplicate_Orig'' (Num 52),
                   ex_row ''S2 Orig'' ''Duplicate_Orig'' (Num 70),
                   ex_row ''S1 Dup'' ''Duplicate_Dup'' (Num 51),
                   ex_row ''S1 Dup'' ''Duplicate_Dup'' (Num 53),
                   ex_row ''S3 Dup'' ''Duplicate_Dup'' (Num 90)])
        [(1, ex_meta 1)] 30)
   = [Some ''S1'', Some ''S1'', Some ''S1'', Some ''S1'']"
proof -
  let ?df = "ex_table [ex_row ''S1 Orig'' ''Duplicate_Orig'' (Num 50),
                   ex_row ''S1 Orig'' ''Duplicate_Orig'' (Num 52),
                   ex_row ''S2 Orig'' ''Duplicate_Orig'' (Num 70),
                   ex_row ''S1 Dup'' ''Duplicate_Dup'' (Num 51),
                   ex_row ''S1 Dup'' ''Duplicate_Dup'' (Num 53),
                   ex_row ''S3 Dup'' ''Duplicate_Dup'' (Num 90)]"
  have c: "col_name (ex_meta 1) = ''Cu_ppm''" by (simp add: ex_defs startswith_def)
  have b: "dup_base_name (Some ''S1 Orig'') = Some ''S1''"
    "dup_base_name (Some ''S2 Orig'') = Some ''S2''"
    "dup_base_name (Some ''S1 Dup'') = Some ''S1''"
    "dup_base_name (Some ''S3 Dup'') = Some ''S3''"
    by (simp_all add: dup_base_name_def str_defs)
  have p: "map (\<lambda>(a, b). dup_base_name (Sample a)) (dup_pairs ?df)
      = [Some ''S1'', Some ''S1'', Some ''S1'', Some ''S1'']"
    by (simp add: dup_pairs_eq dup_merge_def ex_row_def ex_table_def b)
  from dup_records_cross_product [of "Some ''S1''" ?df "ex_meta 1" 30 "[(1, ex_meta 1)]"]
  show ?thesis
    using p
    by (simp add: compute_duplicate_rpd_def dup_analyte_def c comp_def case_prod_unfold
        dup_row_Sample del: filter_filter) (simp add: ex_table_def)
qed

subsection \<open>The substitution for a censored cell\<close>

lemma dropWhile_snoc_keep: "\<not> P c \<Longrightarrow> \<exists>ys. dropWhile P (xs @ [c]) = ys @ [c]"
  by (induction xs) auto

lemma rstrip_Cons:
  assumes "\<not> is_space c"
  shows "\<exists>r. rstrip (c # cs) = c # r"
proof -
  from dropWhile_snoc_keep [of is_space c "rev cs"] assms obtain ys
    where "dropWhile is_space (rev cs @ [c]) = ys @ [c]" by blast
  then show ?thesis by (simp add: rstrip_def)
qed

lemma digitpart_nondigit: "\<not> is_digit c \<Longrightarrow> digitpart (c # cs) = ([], c # cs)"
  by (cases cs) simp_all

lemma py_float_censored:
  assumes "startswith t ''<''"
  shows "py_float t = None"
proof -
  from assms obtain cs where t: "t = CHR ''<'' # cs"
    by (cases t) (simp_all add: startswith_def)
  have ns: "\<not> is_space CHR ''<''" by (simp add: is_space_def)
  from rstrip_Cons [OF ns] obtain r where r: "rstrip (CHR ''<'' # cs) = CHR ''<'' # r"
    by blast
  have s: "strip t = CHR ''<'' # r"
    using ns by (simp add: strip_def lstrip_def t r)
  have nd: "\<not> is_digit CHR ''<''" by (simp add: is_digit_def)
  have "parse_unsigned (CHR ''<'' # r) = None"
    by (simp add: parse_unsigned_def parse_number_def digitpart_nondigit [OF nd]
        lower_def lower_char_def)
  then show ?thesis by (simp add: py_float_def s)
qed

lemma crm_clean_censored:
  assumes "is_bdl x"
  shows "crm_clean x = NaN"
proof -
  from assms obtain s where x: "x = Str s" and s: "startswith (strip s) ''<''"
    by (cases x) simp_all
  from py_float_censored [OF s] show ?thesis
    by (simp add: crm_clean_def x Let_def str_to_numeric_def)
qed

lemma dup_row_one_censored:
  assumes "is_bdl x" "\<not> isna y" "\<not> is_bdl y"
  shows "d_Status (dup_row base m x y tol) = ''BDL_Substitution''"
    and "d_RPD (dup_row base m x y tol)
         = FNum (rpd_formula (Fin (dl m / 2)) (dup_to_numeric_with_bdl y (dl m)))"
    and "d_Status (dup_row base m y x tol) = ''BDL_Substitution''"
    and "d_RPD (dup_row base m y x tol)
         = FNum (rpd_formula (dup_to_numeric_with_bdl y (dl m)) (Fin (dl m / 2)))"
  using assms is_bdl_not_isna [OF assms(1)]
  by (simp_all add: dup_row_def Let_def dup_to_numeric_with_bdl_def dup_bdl_substitution_def)

text \<open>
  C6, as the code has it.  The blank evaluator substitutes
  \<open>blank_bdl_substitution DL r\<close> for a censored cell, which is \<open>DL / 2\<close>,
  \<open>DL / sqrt 2\<close>, \<open>0\<close> and \<open>DL\<close> for the rules \<open>half\<close>, \<open>sqrt2\<close>, \<open>zero\<close> and \<open>dl\<close>.
  The duplicate evaluator takes no rule: it substitutes \<open>DL / 2\<close>, and a pair with
  one censored side has the status \<open>BDL_Substitution\<close> and an RPD computed with
  \<open>DL / 2\<close> for that side.  The CRM evaluator substitutes nothing: the censored
  cell is missing.
\<close>

theorem censored_substitution_by_evaluator:
  assumes "is_bdl x"
  shows "blank_to_numeric_with_bdl x d rule = Fin (blank_bdl_substitution d rule)
       \<and> blank_bdl_substitution d (RuleStr ''half'') = d / 2
       \<and> blank_bdl_substitution d (RuleStr ''sqrt2'') = d / sqrt 2
       \<and> blank_bdl_substitution d (RuleStr ''zero'') = 0
       \<and> blank_bdl_substitution d (RuleStr ''dl'') = d
       \<and> dup_to_numeric_with_bdl x d = Fin (d / 2)
       \<and> crm_clean x = NaN
       \<and> (\<not> isna y \<and> \<not> is_bdl y \<longrightarrow>
            d_Status (dup_row base m x y tol) = ''BDL_Substitution'' \<and>
            d_RPD (dup_row base m x y tol)
              = FNum (rpd_formula (Fin (dl m / 2)) (dup_to_numeric_with_bdl y (dl m))) \<and>
            d_Status (dup_row base m y x tol) = ''BDL_Substitution'' \<and>
            d_RPD (dup_row base m y x tol)
              = FNum (rpd_formula (dup_to_numeric_with_bdl y (dl m)) (Fin (dl m / 2))))"
proof -
  have 1: "blank_to_numeric_with_bdl x d rule = Fin (blank_bdl_substitution d rule)"
    using assms is_bdl_not_isna [OF assms] by (simp add: blank_to_numeric_with_bdl_def)
  have 2: "blank_bdl_substitution d (RuleStr ''half'') = d / 2"
    "blank_bdl_substitution d (RuleStr ''sqrt2'') = d / sqrt 2"
    "blank_bdl_substitution d (RuleStr ''zero'') = 0"
    "blank_bdl_substitution d (RuleStr ''dl'') = d"
    by (simp_all add: lower_def lower_char_def)
  have 3: "dup_to_numeric_with_bdl x d = Fin (d / 2)"
    using assms is_bdl_not_isna [OF assms]
    by (simp add: dup_to_numeric_with_bdl_def dup_bdl_substitution_def)
  note 4 = crm_clean_censored [OF assms]
  show ?thesis
    using 1 2 3 4 dup_row_one_censored [OF assms] by blast
qed

theorem censored_substitution_by_evaluator_witness:
  "blank_to_numeric_with_bdl (Str ''<1'') 1 (RuleStr ''zero'') = Fin 0 \<and>
   blank_to_numeric_with_bdl (Str ''<1'') 1 (RuleStr ''dl'') = Fin 1 \<and>
   dup_to_numeric_with_bdl (Str ''<1'') 1 = Fin (1 / 2) \<and>
   crm_clean (Str ''<1'') = NaN \<and>
   d_Status (dup_row (Some ''S1'') (ex_meta 1) (Str ''<1'') (Num 20) 30) = ''BDL_Substitution'' \<and>
   d_RPD (dup_row (Some ''S1'') (ex_meta 1) (Str ''<1'') (Num 20) 30) = FNum (Fin (7800 / 41))"
proof -
  have h: "is_bdl (Str ''<1'')" by (simp add: str_defs)
  have y: "\<not> isna (Num 20) \<and> \<not> is_bdl (Num 20)" by (simp add: isna_def)
  have v: "dup_to_numeric_with_bdl (Num 20) (dl (ex_meta 1)) = Fin 20"
    by (simp add: dup_to_numeric_with_bdl_def isna_def)
  have f: "rpd_formula (Fin (dl (ex_meta 1) / 2)) (Fin 20) = Fin (7800 / 41)"
    by (simp add: rpd_formula_def fsub_def ex_meta_def)
  from censored_substitution_by_evaluator [OF h, of 1 "RuleStr ''zero''" "Num 20"
      "Some ''S1''" "ex_meta 1" 30]
    censored_substitution_by_evaluator [OF h, of 1 "RuleStr ''dl''" "Num 20"
      "Some ''S1''" "ex_meta 1" 30]
  show ?thesis using y v f by simp
qed

text \<open>
  The claim C6 fails for the rule \<open>zero\<close>: the blank evaluator substitutes \<open>0\<close> for
  the censored cell \<open><1\<close> (\<open>DL = 1\<close>), the duplicate evaluator \<open>0.5\<close>, and the RPD of
  the pair (\<open><1\<close>, \<open>20\<close>) is \<open>7800/41\<close>, not the \<open>200\<close> that the substitute \<open>0\<close> gives.
\<close>

theorem dup_substitution_not_by_rule:
  "blank_to_numeric_with_bdl (Str ''<1'') 1 (RuleStr ''zero'') = Fin 0 \<and>
   d_Orig_num (dup_row (Some ''S1'') (ex_meta 1) (Str ''<1'') (Num 20) 30) = Fin (1 / 2) \<and>
   d_Orig_num (dup_row (Some ''S1'') (ex_meta 1) (Str ''<1'') (Num 20) 30)
     \<noteq> Fin (blank_bdl_substitution 1 (RuleStr ''zero'')) \<and>
   d_RPD (dup_row (Some ''S1'') (ex_meta 1) (Str ''<1'') (Num 20) 30) = FNum (Fin (7800 / 41)) \<and>
   rpd_formula (Fin (blank_bdl_substitution 1 (RuleStr ''zero''))) (Fin 20) = Fin 200"
  by (simp add: dup_eval ex_meta_def blank_to_numeric_with_bdl_def)

subsection \<open>CRM evaluator\<close>

text \<open>
  C7, as the code has it.  The certified value of a pair reads as a finite number
  below the detection limit.  If the measured value is not missing, the status is
  \<open>NotApplicable\<close> and the recovery and the bias are the empty string, whatever the
  measured value is.  If the measured value is missing, the status is
  \<open>NotEvaluated\<close>, the recovery and the bias again the empty string.
\<close>

theorem crm_certified_below_DL:
  assumes "crm_clean cert_raw = Fin c" and "c < dl m"
  shows "(crm_clean meas_raw \<noteq> NaN \<longrightarrow>
            c_CRM_Status (crm_row base m meas_raw cert_raw low_tol high_tol) = ''NotApplicable'' \<and>
            c_Recovery (crm_row base m meas_raw cert_raw low_tol high_tol) = FStr [] \<and>
            c_Bias (crm_row base m meas_raw cert_raw low_tol high_tol) = FStr [])
       \<and> (crm_clean meas_raw = NaN \<longrightarrow>
            c_CRM_Status (crm_row base m meas_raw cert_raw low_tol high_tol) = ''NotEvaluated'' \<and>
            c_Recovery (crm_row base m meas_raw cert_raw low_tol high_tol) = FStr [] \<and>
            c_Bias (crm_row base m meas_raw cert_raw low_tol high_tol) = FStr [])"
  using assms by (simp add: crm_row_def Let_def notna_def)

lemmas crm_eval = crm_row_def crm_clean_def qual_match_def Let_def notna_def str_defs
  parse_defs fge_def fgt_def fsub_def ex_meta_def

theorem crm_certified_below_DL_witness:
  "c_CRM_Status (crm_row (Some ''CRM1'') (ex_meta 1) (Str ''55'') (Str ''0.5'') 80 120)
     = ''NotApplicable'' \<and>
   c_Recovery (crm_row (Some ''CRM1'') (ex_meta 1) (Str ''55'') (Str ''0.5'') 80 120) = FStr [] \<and>
   c_Bias (crm_row (Some ''CRM1'') (ex_meta 1) (Str ''55'') (Str ''0.5'') 80 120) = FStr [] \<and>
   c_CRM_Status (crm_row (Some ''CRM1'') (ex_meta 1) (Str ''< 1'') (Str ''0.5'') 80 120)
     = ''NotEvaluated'' \<and>
   c_Recovery (crm_row (Some ''CRM1'') (ex_meta 1) (Str ''< 1'') (Str ''0.5'') 80 120) = FStr [] \<and>
   c_Bias (crm_row (Some ''CRM1'') (ex_meta 1) (Str ''< 1'') (Str ''0.5'') 80 120) = FStr []"
proof -
  have c: "crm_clean (Str ''0.5'') = Fin (1 / 2)"
    by (simp add: crm_clean_def qual_match_def Let_def str_defs parse_defs)
  have d: "(1 / 2 :: real) < dl (ex_meta 1)" by (simp add: ex_meta_def)
  have m1: "crm_clean (Str ''55'') \<noteq> NaN"
    by (simp add: crm_clean_def qual_match_def Let_def str_defs parse_defs)
  have m2: "crm_clean (Str ''< 1'') = NaN"
    by (simp add: crm_clean_def qual_match_def Let_def str_defs parse_defs)
  from crm_certified_below_DL [OF c d, of "Str ''55''" "Some ''CRM1''" 80 120]
    crm_certified_below_DL [OF c d, of "Str ''< 1''" "Some ''CRM1''" 80 120]
  show ?thesis using m1 m2 by simp
qed

text \<open>
  The claim C7 fails when the measured value is missing: certified \<open>0.5\<close> below
  \<open>DL = 1\<close> with an empty measured cell is \<open>NotEvaluated\<close>, not \<open>NotApplicable\<close>.
\<close>

theorem crm_missing_measured_NotEvaluated:
  "crm_clean (Str ''0.5'') = Fin (1 / 2) \<and>
   c_CRM_Status (crm_row (Some ''CRM1'') (ex_meta 1) Missing (Str ''0.5'') 80 120)
     = ''NotEvaluated'' \<and>
   c_CRM_Status (crm_row (Some ''CRM1'') (ex_meta 1) Missing (Str ''0.5'') 80 120)
     \<noteq> ''NotApplicable''"
  by (simp add: crm_eval)

lemma crm_row_examples:
  "crm_row (Some ''CRM1'') (ex_meta 1) (Num 55) (Num 50) 80 120
   = \<lparr>c_CRM = Some ''CRM1'', c_Analyte = ''Cu'', c_Unit = ''ppm'', c_Measured = Fin 55,
      c_Certified = Fin 50, c_DL = 1, c_Recovery = FNum (Fin 110), c_Bias = FNum (Fin 10),
      c_CRM_Status = ''OK''\<rparr>"
  "c_CRM_Status (crm_row (Some ''CRM1'') (ex_meta 1) (Num 30) (Num 50) 80 120) = ''Fail''"
  "c_CRM_Status (crm_row (Some ''CRM1'') (ex_meta 1) (Str ''0.5'') (Num 50) 80 120)
   = ''Needs Investigation''"
  "c_CRM_Status (crm_row (Some ''CRM1'') (ex_meta 1) (Num 5) (Num 5) 80 120) = ''Below10xDL''"
  "c_CRM_Status (crm_row (Some ''CRM1'') (ex_meta 1) Missing (Str ''<1'') 80 120)
   = ''NotApplicable''"
  by (simp_all add: crm_eval)

text \<open>Three runs of one material and one of another are paired by position.\<close>

lemma crm_pairs_example:
  "map (\<lambda>(a, b). (cells a ''Cu_ppm'', cells b ''Cu_ppm''))
     (crm_pairs (ex_table
        [ex_row ''OREAS Meas'' ''CRM'' (Num 1), ex_row ''OREAS Cert'' ''CRM'' (Num 2),
         ex_row ''GBM Meas'' ''CRM'' (Num 3), ex_row ''OREAS Meas'' ''CRM'' (Num 4),
         ex_row ''GBM Cert'' ''CRM'' (Num 5), ex_row ''OREAS Cert'' ''CRM'' (Num 6),
         ex_row ''OREAS Meas'' ''CRM'' (Num 7)]))
   = [(Num 1, Num 2), (Num 3, Num 5), (Num 4, Num 6)]"
  by (simp add: crm_pairs_def ex_table_def ex_row_def sample_contains_def crm_base_name_def
      str_defs Let_def)

subsection \<open>Aggregator: the status of a module\<close>

text \<open>
  C3.  The CRM status of an analyte follows the precedence of the specification
  on every list of statuses, and the three lists of the specification reduce as
  it says.
\<close>

theorem crm_final_status_precedence:
  "compute_crm_final_status statuses = crm_final_status_spec statuses
   \<and> compute_crm_final_status [''Fail'', ''Fail'', ''OK''] = ''Fail''
   \<and> compute_crm_final_status [''Fail'', ''OK''] = ''Needs Investigation''
   \<and> compute_crm_final_status [''NotApplicable'', ''Below10xDL''] = ''NotApplicable''"
proof (intro conjI)
  have c: "count_list statuses y = length (filter (\<lambda>s. s = y) statuses)" for y
    by (induction statuses) simp_all
  have m: "0 < length (filter (\<lambda>s. s = y) statuses) \<longleftrightarrow> y \<in> set statuses" for y
    by (induction statuses) auto
  have a: "list_all (\<lambda>s. s \<in> set [''NotApplicable'', ''Below10xDL'']) statuses
           \<longleftrightarrow> set statuses \<subseteq> {''NotApplicable'', ''Below10xDL''}"
    unfolding list_all_iff by auto
  show "compute_crm_final_status statuses = crm_final_status_spec statuses"
    unfolding compute_crm_final_status_def crm_final_status_spec_def Let_def c m a
    by (rule refl)
qed (simp_all add: compute_crm_final_status_def)

theorem crm_final_status_precedence_witness:
  "compute_crm_final_status [''NotEvaluated'', ''Needs Investigation'', ''OK'']
     = ''Needs Investigation'' \<and>
   compute_crm_final_status [''Below10xDL'', ''OK''] = ''OK'' \<and>
   compute_crm_final_status [''NotApplicable'', ''NotEvaluated''] = ''NotEvaluated''"
  using crm_final_status_precedence [of "[''NotEvaluated'', ''Needs Investigation'', ''OK'']"]
    crm_final_status_precedence [of "[''Below10xDL'', ''OK'']"]
    crm_final_status_precedence [of "[''NotApplicable'', ''NotEvaluated'']"]
  by (simp add: crm_final_status_spec_def)

subsection \<open>Aggregator: the final flag\<close>

lemma dup_final_status_Needs_Investigation:
  assumes "''BDL_Substitution'' \<in> set statuses \<or> ''NotEvaluated'' \<in> set statuses"
    and "''Fail_RPD'' \<notin> set statuses"
  shows "compute_dup_final_status statuses = ''Needs Investigation''"
  using assms by (auto simp: compute_dup_final_status_def)

lemma final_flag_dup_Needs_Investigation:
  assumes "CRM_FinalStatus (crm_part row) \<notin> {''Fail'', ''Needs Investigation''}"
    and "dup_part row = Some d" and "Duplicate_Status d = ''Needs Investigation''"
    and "blank_part row = Some b" and "Blank_Status b = ''OK''"
  shows "final_flag row = ''Pass''"
  using assms by (simp add: final_flag_def normalize_status_def)

lemma ex_col_name: "col_name (ex_meta d) = ''Cu_ppm''" "col_name ex_meta_Zn = ''Zn_ppm''"
  by (simp_all add: ex_defs ex_meta_Zn_def startswith_def)

lemma ex_crm_OK_eq:
  "ex_crm_OK = [\<lparr>c_CRM = Some ''CRM1'', c_Analyte = ''Cu'', c_Unit = ''ppm'',
      c_Measured = Fin 55, c_Certified = Fin 50, c_DL = 1, c_Recovery = FNum (Fin 110),
      c_Bias = FNum (Fin 10), c_CRM_Status = ''OK''\<rparr>]"
  by (simp add: ex_crm_OK_def crm_eval)

lemma ex_dup_BDL_eq:
  "ex_dup_BDL = [\<lparr>d_Sample = Some ''S1'', d_Analyte = ''Cu'', d_Unit = ''ppm'',
      d_Orig = Str ''<1'', d_Dup = Num 20, d_Orig_num = Fin (1 / 2), d_Dup_num = Fin 20,
      d_DL = 1, d_Above10xDL = False, d_RPD = FNum (Fin (7800 / 41)),
      d_Status = ''BDL_Substitution''\<rparr>]"
  by (simp add: ex_dup_BDL_def dup_eval ex_meta_def)

lemma ex_dup_Zn_eq:
  "ex_dup_Zn = [\<lparr>d_Sample = Some ''S1'', d_Analyte = ''Zn'', d_Unit = ''ppm'',
      d_Orig = Num 50, d_Dup = Num 60, d_Orig_num = Fin 50, d_Dup_num = Fin 60,
      d_DL = 1, d_Above10xDL = True, d_RPD = FNum (Fin (200 / 11)), d_Status = ''OK''\<rparr>]"
  by (simp add: ex_dup_Zn_def dup_eval ex_meta_Zn_def)

lemma ex_blank_OK_eq:
  "ex_blank_OK = [\<lparr>b_Analyte = ''Cu'', b_Unit = ''ppm'', b_DL = 1, b_Values = [Str ''< 1''],
      b_Average = FNum (Fin (1 / 2)), b_StDev = FNum (Fin 0), b_Blank_Status = ''OK''\<rparr>]"
  by (simp add: ex_blank_OK_def blank_analyte_def ex_col_name Let_def)
     (simp add: ex_defs isna_def str_defs blank_to_numeric_with_bdl_def
        mean_def std0_def dropna_def notna_def fsum_def fsub_def)

lemmas summary_eval = build_qc_summary_def groupby_apply_def safe_merge_def left_merge_def
  reduce_crm_def reduce_dup_def compute_crm_final_status_def compute_dup_final_status_def
  final_flag_def normalize_status_def merged_row.extend_def summary_row.fields_def
  mean_def dropna_def notna_def fsum_def Let_def

text \<open>
  C1.  A CRM pair within tolerance, a blank with status \<open>OK\<close> and one duplicate pair
  with status \<open>BDL_Substitution\<close>: the duplicate module reduces to
  \<open>Needs Investigation\<close>, which \<open>final_flag\<close> does not test for the duplicate module,
  and the flag of the analyte is \<open>Pass\<close>.
\<close>

theorem final_flag_dup_BDL_Substitution_Pass:
  "build_qc_summary ex_crm_OK ex_dup_BDL ex_blank_OK
   = Inr [\<lparr>Analyte = ''Cu'', Unit = ''ppm'',
           crm_part = \<lparr>CRM_Recovery = Fin 110, CRM_Bias = Fin 10, CRM_PassCount = 1,
             CRM_FailCount = 0, CRM_NeedsInvestigationCount = 0, CRM_Below10xDLCount = 0,
             CRM_NotApplicableCount = 0, CRM_NotEvaluatedCount = 0, CRM_TotalEvaluated = 1,
             CRM_FinalStatus = ''OK''\<rparr>,
           dup_part = Some \<lparr>Duplicate_RPD = Fin (7800 / 41), Duplicate_PassCount = 0,
             Duplicate_FailCount = 0, Duplicate_BDLSubCount = 1, Duplicate_BothBDLCount = 0,
             Duplicate_Below10xDLCount = 0, Duplicate_NotEvaluatedCount = 0,
             Duplicate_TotalEvaluated = 0, Duplicate_Status = ''Needs Investigation''\<rparr>,
           blank_part = Some \<lparr>Blank_Average = FNum (Fin (1 / 2)), Blank_StDev = FNum (Fin 0),
             Blank_Status = ''OK''\<rparr>,
           Final_QC_Flag = ''Pass''\<rparr>]"
  by (simp add: ex_crm_OK_eq ex_dup_BDL_eq ex_blank_OK_eq summary_eval)

subsection \<open>Aggregator: the rows of the summary\<close>

lemma groupby_apply_keys:
  "map fst (groupby_apply key_of reduce table) = sort (remdups (map key_of table))"
  by (simp add: groupby_apply_def comp_def)

lemma count_key_distinct:
  "distinct (map fst xs) \<Longrightarrow>
   length (filter (\<lambda>p. fst p = k) xs) = (if k \<in> fst ` set xs then 1 else 0)"
  by (induction xs) (auto simp: image_iff)

lemma groupby_apply_count:
  "length (filter (\<lambda>p. fst p = k) (groupby_apply key_of reduce table))
   = (if k \<in> key_of ` set table then 1 else 0)"
proof -
  let ?g = "groupby_apply key_of reduce table"
  have d: "distinct (map fst ?g)" by (simp add: groupby_apply_keys)
  have "fst ` set ?g = set (map fst ?g)" by simp
  also have "\<dots> = key_of ` set table" by (simp only: groupby_apply_keys) simp
  finally have s: "fst ` set ?g = key_of ` set table" .
  from count_key_distinct [OF d, of k] show ?thesis by (simp only: s)
qed

lemma groupby_apply_example:
  "map fst (groupby_apply (\<lambda>r. (d_Analyte r, d_Unit r)) reduce_dup
              (ex_dup_Zn @ ex_dup_BDL @ ex_dup_Zn))
   = [(''Cu'', ''ppm''), (''Zn'', ''ppm'')]"
  by (simp add: groupby_apply_def ex_dup_Zn_eq ex_dup_BDL_eq less_eq_char_def less_char_def)

lemma merge_block_filter:
  "filter (\<lambda>(k', b). k' = k0) right = filter (\<lambda>p. fst p = k0) right"
  by (simp add: case_prod_unfold)

lemma merge_block_count:
  "length (filter (\<lambda>p. fst p = k)
     (case filter (\<lambda>p. fst p = k0) right of
        [] \<Rightarrow> [(k0, a, None)]
      | ms \<Rightarrow> map (\<lambda>(k', b). (k0, a, Some b)) ms))
   = (if k0 = k then max 1 (length (filter (\<lambda>p. fst p = k0) right)) else 0)"
  by (cases "filter (\<lambda>p. fst p = k0) right") (auto simp: case_prod_unfold comp_def)

lemma merge_block_member:
  assumes "(k, a, bo) \<in> set (case filter (\<lambda>p. fst p = k0) right of
        [] \<Rightarrow> [(k0, a0, None)]
      | ms \<Rightarrow> map (\<lambda>(k', b). (k0, a0, Some b)) ms)"
  shows "k = k0 \<and> a = a0 \<and> (bo = None \<longleftrightarrow> k0 \<notin> fst ` set right)"
proof (cases "filter (\<lambda>p. fst p = k0) right")
  case Nil
  then have "k0 \<notin> fst ` set right" by (auto simp: filter_empty_conv)
  with assms Nil show ?thesis by simp
next
  case (Cons q qs)
  have "q \<in> set (filter (\<lambda>p. fst p = k0) right)" by (simp add: Cons)
  then have "k0 \<in> fst ` set right" by auto
  with assms Cons show ?thesis by (auto simp: case_prod_unfold)
qed

lemma left_merge_Cons:
  "left_merge ((k0, a0) # left) right =
      (case filter (\<lambda>p. fst p = k0) right of
         [] \<Rightarrow> [(k0, a0, None)]
       | ms \<Rightarrow> map (\<lambda>(k', b). (k0, a0, Some b)) ms) @ left_merge left right"
  by (simp add: left_merge_def merge_block_filter)

lemma left_merge_count:
  "length (filter (\<lambda>p. fst p = k) (left_merge left right))
   = length (filter (\<lambda>p. fst p = k) left) * max 1 (length (filter (\<lambda>p. fst p = k) right))"
proof (induction left)
  case Nil
  show ?case by (simp add: left_merge_def)
next
  case (Cons p left)
  obtain k0 a where p: "p = (k0, a)" by (cases p)
  show ?case
    unfolding p left_merge_Cons filter_append length_append merge_block_count Cons.IH
    by simp
qed

lemma safe_merge_count:
  "length (filter (\<lambda>p. fst p = k) (safe_merge left right))
   = length (filter (\<lambda>p. fst p = k) left) * max 1 (length (filter (\<lambda>p. fst p = k) right))"
proof (cases "right = []")
  case True
  then show ?thesis
    by (simp add: safe_merge_def filter_map comp_def case_prod_unfold)
next
  case False
  then show ?thesis by (simp add: safe_merge_def left_merge_count)
qed

lemma left_merge_member:
  "(k, a, bo) \<in> set (left_merge left right) \<Longrightarrow>
   (k, a) \<in> set left \<and> (bo = None \<longleftrightarrow> k \<notin> fst ` set right)"
proof (induction left)
  case Nil
  then show ?case by (simp add: left_merge_def)
next
  case (Cons p left)
  obtain k0 a0 where p: "p = (k0, a0)" by (cases p)
  from Cons.prems consider
      (here) "(k, a, bo) \<in> set (case filter (\<lambda>p. fst p = k0) right of
         [] \<Rightarrow> [(k0, a0, None)]
       | ms \<Rightarrow> map (\<lambda>(k', b). (k0, a0, Some b)) ms)"
    | (later) "(k, a, bo) \<in> set (left_merge left right)"
    unfolding p left_merge_Cons set_append by blast
  then show ?case
  proof cases
    case here
    from merge_block_member [OF here] show ?thesis by (simp add: p)
  next
    case later
    from Cons.IH [OF later] show ?thesis by simp
  qed
qed

lemma safe_merge_member:
  assumes "(k, a, bo) \<in> set (safe_merge left right)"
  shows "(k, a) \<in> set left \<and> (bo = None \<longleftrightarrow> k \<notin> fst ` set right)"
proof (cases "right = []")
  case True
  with assms show ?thesis by (auto simp: safe_merge_def)
next
  case False
  with assms have "(k, a, bo) \<in> set (left_merge left right)" by (simp add: safe_merge_def)
  then show ?thesis by (rule left_merge_member)
qed

text \<open>Without a row in one of the three tables there is no summary.\<close>

lemma build_qc_summary_empty_module:
  "crm = [] \<or> dup = [] \<or> blank = [] \<Longrightarrow> build_qc_summary crm dup blank = Inl KeyError"
  by (auto simp: build_qc_summary_def groupby_apply_def Let_def)

lemma ex_summary_Zn:
  "build_qc_summary ex_crm_OK ex_dup_Zn ex_blank_OK = Inr [ex_summary_Cu]"
  by (simp add: ex_crm_OK_eq ex_dup_Zn_eq ex_blank_OK_eq summary_eval ex_summary_Cu_def)

text \<open>
  C2, as the code has it.  When \<open>build_qc_summary\<close> returns a summary, a pair of
  analyte and unit has rows in it only if it occurs in the CRM table; it then has
  one row for each row of its key in the Blank table, and one row when the Blank
  table has none.  In a row, the columns of the Duplicate module (of the Blank
  module) are empty exactly when that module has no row of the key.
\<close>

theorem summary_rows_of_key:
  assumes "build_qc_summary crm dup blank = Inr summary"
  shows "length (filter (\<lambda>r. (Analyte r, Unit r) = k) summary)
         = (if k \<in> set (map (\<lambda>r. (c_Analyte r, c_Unit r)) crm)
            then max 1 (length (filter (\<lambda>b. (b_Analyte b, b_Unit b) = k) blank))
            else 0)
       \<and> (\<forall>r \<in> set summary.
            (dup_part r = None \<longleftrightarrow>
               (Analyte r, Unit r) \<notin> set (map (\<lambda>r. (d_Analyte r, d_Unit r)) dup)) \<and>
            (blank_part r = None \<longleftrightarrow>
               (Analyte r, Unit r) \<notin> set (map (\<lambda>b. (b_Analyte b, b_Unit b)) blank)))"
proof -
  let ?crm_small = "groupby_apply (\<lambda>r. (c_Analyte r, c_Unit r)) reduce_crm crm"
  let ?dup_small = "groupby_apply (\<lambda>r. (d_Analyte r, d_Unit r)) reduce_dup dup"
  let ?blank_small = "map (\<lambda>b. ((b_Analyte b, b_Unit b),
                                   \<lparr>Blank_Average = b_Average b, Blank_StDev = b_StDev b,
                                    Blank_Status = b_Blank_Status b\<rparr>)) blank"
  let ?s1 = "safe_merge ?crm_small ?dup_small"
  let ?s2 = "safe_merge ?s1 ?blank_small"
  let ?row = "\<lambda>((a, u), (c, d), b).
     \<lparr>Analyte = a, Unit = u, crm_part = c, dup_part = d, blank_part = b,
      Final_QC_Flag = final_flag \<lparr>Analyte = a, Unit = u, crm_part = c, dup_part = d,
        blank_part = b\<rparr>\<rparr>"
  have summary: "summary = map ?row ?s2"
    using assms
    by (simp add: build_qc_summary_def Let_def comp_def case_prod_unfold
        merged_row.extend_def summary_row.fields_def split: if_splits)
  have key: "(Analyte (?row p), Unit (?row p)) = fst p" for p
    by (simp add: case_prod_unfold)
  have c1: "length (filter (\<lambda>p. fst p = k) ?dup_small) \<le> 1"
    by (simp add: groupby_apply_count)
  have cb: "length (filter (\<lambda>p. fst p = k) ?blank_small)
            = length (filter (\<lambda>b. (b_Analyte b, b_Unit b) = k) blank)"
    by (simp add: filter_map comp_def)
  have "length (filter (\<lambda>r. (Analyte r, Unit r) = k) summary)
        = length (filter (\<lambda>p. fst p = k) ?s2)"
    unfolding summary filter_map length_map comp_def key ..
  also have "\<dots> = length (filter (\<lambda>p. fst p = k) ?crm_small)
                 * max 1 (length (filter (\<lambda>p. fst p = k) ?dup_small))
                 * max 1 (length (filter (\<lambda>b. (b_Analyte b, b_Unit b) = k) blank))"
    by (simp only: safe_merge_count cb)
  also have "\<dots> = (if k \<in> set (map (\<lambda>r. (c_Analyte r, c_Unit r)) crm)
            then max 1 (length (filter (\<lambda>b. (b_Analyte b, b_Unit b) = k) blank))
            else 0)"
    using c1 by (simp add: groupby_apply_count max_def)
  finally have count: "length (filter (\<lambda>r. (Analyte r, Unit r) = k) summary)
         = (if k \<in> set (map (\<lambda>r. (c_Analyte r, c_Unit r)) crm)
            then max 1 (length (filter (\<lambda>b. (b_Analyte b, b_Unit b) = k) blank))
            else 0)" .
  have parts: "(dup_part r = None \<longleftrightarrow>
               (Analyte r, Unit r) \<notin> set (map (\<lambda>r. (d_Analyte r, d_Unit r)) dup)) \<and>
            (blank_part r = None \<longleftrightarrow>
               (Analyte r, Unit r) \<notin> set (map (\<lambda>b. (b_Analyte b, b_Unit b)) blank))"
    if "r \<in> set summary" for r
  proof -
    from that obtain p where p: "p \<in> set ?s2" and r: "r = ?row p"
      unfolding summary by auto
    obtain k' c d b where pe: "p = (k', (c, d), b)" by (cases p) auto
    from p have "(k', (c, d), b) \<in> set ?s2" unfolding pe .
    note m2 = safe_merge_member [OF this]
    from m2 have b: "b = None \<longleftrightarrow> k' \<notin> fst ` set ?blank_small" by simp
    from m2 have "(k', c, d) \<in> set ?s1" by simp
    note m1 = safe_merge_member [OF this]
    from m1 have d: "d = None \<longleftrightarrow> k' \<notin> fst ` set ?dup_small" by simp
    have "fst ` set ?dup_small = set (map fst ?dup_small)" by simp
    also have "\<dots> = set (map (\<lambda>r. (d_Analyte r, d_Unit r)) dup)"
      by (simp only: groupby_apply_keys set_sort set_remdups)
    finally have ds: "fst ` set ?dup_small = set (map (\<lambda>r. (d_Analyte r, d_Unit r)) dup)" .
    have bs: "fst ` set ?blank_small = set (map (\<lambda>b. (b_Analyte b, b_Unit b)) blank)"
      by (simp add: image_image)
    show ?thesis
      using b d by (simp add: r pe case_prod_unfold ds bs del: set_map)
  qed
  from count parts show ?thesis by blast
qed


theorem summary_rows_of_key_witness:
  "build_qc_summary ex_crm_OK ex_dup_Zn ex_blank_OK = Inr [ex_summary_Cu] \<and>
   length (filter (\<lambda>r. (Analyte r, Unit r) = (''Cu'', ''ppm'')) [ex_summary_Cu]) = 1 \<and>
   length (filter (\<lambda>r. (Analyte r, Unit r) = (''Zn'', ''ppm'')) [ex_summary_Cu]) = 0 \<and>
   dup_part ex_summary_Cu = None \<and>
   blank_part ex_summary_Cu \<noteq> None"
  using summary_rows_of_key [OF ex_summary_Zn, of "(''Cu'', ''ppm'')"]
    summary_rows_of_key [OF ex_summary_Zn, of "(''Zn'', ''ppm'')"]
  by (simp add: ex_summary_Zn ex_summary_Cu_def)

text \<open>
  The claim C2 fails for a pair that only the Duplicate table holds: with copper
  in the CRM and Blank tables and zinc in the Duplicate table, the summary is the
  one row of copper, and zinc has no row.
\<close>

theorem summary_without_duplicate_only_key:
  "map (\<lambda>r. (d_Analyte r, d_Unit r)) ex_dup_Zn = [(''Zn'', ''ppm'')] \<and>
   build_qc_summary ex_crm_OK ex_dup_Zn ex_blank_OK = Inr [ex_summary_Cu] \<and>
   map (\<lambda>r. (Analyte r, Unit r)) [ex_summary_Cu] = [(''Cu'', ''ppm'')]"
  by (simp add: ex_summary_Zn) (simp add: ex_dup_Zn_eq ex_summary_Cu_def)


end
